theory Spec2Isabelle
  imports Complex_Main "HOL-Library.Extended_Nat"
begin

section \<open>Number model\<close>

text \<open>
  The engine computes on JavaScript numbers. They are embedded as \<^typ>\<open>real\<close>: the
  arithmetic of the source is read as exact arithmetic, which is also how the
  specification describes the primitives (pure, total functions over real numbers).
  Values that the source treats as counts of loop iterations (a number of months, a
  number of years, a whole-percent down payment) are \<^typ>\<open>nat\<close> or \<^typ>\<open>int\<close>.
  The one place where the source returns \<^verbatim>\<open>Infinity\<close> on purpose
  (\<^verbatim>\<open>calculateInvestmentPeriod\<close>) has the result type \<^typ>\<open>enat\<close>.
  Divisions whose divisor is zero in the source (where JavaScript yields
  \<^verbatim>\<open>Infinity\<close> or \<^verbatim>\<open>NaN\<close>) are outside the real-valued embedding; a theorem
  whose statement depends on such a division carries the hypothesis that excludes it (a
  loan term of at least one month, a horizon of at least one year). The optimisation
  sweep, whose comparison meets \<^verbatim>\<open>-Infinity\<close> and, at a zero divisor, \<^verbatim>\<open>NaN\<close>, is
  embedded over numbers that have these values.
  The doubles of the source carry a rounding residue (of the order of \<open>10\<^sup>-\<^sup>1\<^sup>6\<close>
  of a value) that exact arithmetic does not have. It is visible in a result only where
  the exact value lies on a tie of \<^verbatim>\<open>Math.round\<close> or \<^verbatim>\<open>toFixed\<close>, where the double
  may fall on either side.

  Interfaces of the source become records. The source reuses field names across its
  interfaces (\<^verbatim>\<open>totalCost\<close>, \<^verbatim>\<open>monthlyInvestment\<close>, \<^verbatim>\<open>totalValue\<close>, ...)
  and as names of parameters, so each record's fields carry a short prefix naming the
  interface: \<open>loan_totalCost\<close> is the field \<^verbatim>\<open>totalCost\<close> of a
  \<^verbatim>\<open>LoanScenario\<close>.
\<close>

definition Math_round :: "real \<Rightarrow> int" where
  \<comment> \<open>\<^verbatim>\<open>Math.round\<close>: the nearest integer, a tie going up.\<close>
  "Math_round x = \<lfloor>x + 1 / 2\<rfloor>"

definition Math_ceil :: "real \<Rightarrow> int" where
  "Math_ceil x = \<lceil>x\<rceil>"

definition toFixed2 :: "real \<Rightarrow> real" where
  \<comment> \<open>\<^verbatim>\<open>Number(x.toFixed(2))\<close>: two decimals, a tie going away from zero.\<close>
  "toFixed2 x =
     (if x < 0 then - (real_of_int \<lfloor>(- x) * 100 + 1 / 2\<rfloor> / 100)
      else real_of_int \<lfloor>x * 100 + 1 / 2\<rfloor> / 100)"

fun for_month :: "(nat \<Rightarrow> 's \<Rightarrow> 's) \<Rightarrow> nat \<Rightarrow> nat \<Rightarrow> 's \<Rightarrow> 's" where
  \<comment> \<open>\<^verbatim>\<open>for (let month = m; month <= last; month++) body\<close>, with \<open>k\<close> iterations
      left (\<open>k = last + 1 - m\<close>); the body has no \<^verbatim>\<open>break\<close>.\<close>
  "for_month body m 0 s = s"
| "for_month body m (Suc k) s = for_month body (Suc m) k (body m s)"

primrec replay :: "real \<Rightarrow> real \<Rightarrow> nat \<Rightarrow> real \<Rightarrow> real" where
  \<comment> \<open>The recurrence \<^verbatim>\<open>value = value * (1 + monthlyReturn) + monthlyInvestment\<close>
      applied \<open>n\<close> times.\<close>
  "replay monthlyReturn monthlyInvestment 0 v = v"
| "replay monthlyReturn monthlyInvestment (Suc n) v =
     replay monthlyReturn monthlyInvestment n (v * (1 + monthlyReturn) + monthlyInvestment)"

section \<open>purchaseCalculations.ts\<close>

subsection \<open>calculateMonthlyLoanPayment, calculateROI\<close>

definition calculateMonthlyLoanPayment :: "real \<Rightarrow> real \<Rightarrow> nat \<Rightarrow> real" where
  "calculateMonthlyLoanPayment principalAmt annualRate months =
     (if annualRate = 0 then principalAmt / real months
      else
        (let monthlyRate = annualRate / 12;
             factor = (1 + monthlyRate) ^ months
         in principalAmt * (monthlyRate * factor) / (factor - 1)))"

definition calculateROI :: "real \<Rightarrow> real \<Rightarrow> real \<Rightarrow> real" where
  "calculateROI initialInvestment finalAssets totalCost =
     (if totalCost \<le> 0 then 0
      else ((finalAssets - totalCost) / totalCost) * 100)"

subsection \<open>calculateOpportunityAnalysis\<close>

record MonthlyOpportunityProjection =
  mop_month :: nat
  mop_investmentContribution :: real
  mop_investmentValue :: real
  mop_netWorth :: real
  mop_loanBalance :: "real option"
  mop_loanPayment :: "real option"

record OpportunityAnalysis =
  oa_totalInvested :: real
  oa_investmentReturns :: real
  oa_finalValue :: real
  oa_monthlyProjections :: "MonthlyOpportunityProjection list"

text \<open>
  The state of the \<^verbatim>\<open>for\<close> loop of \<^verbatim>\<open>calculateOpportunityAnalysis\<close>: the three
  running variables and the projections pushed so far.
\<close>

record opportunity_state =
  os_totalInvested :: real
  os_investmentValue :: real
  os_cumulativeMonthlyInvestment :: real
  os_projections :: "MonthlyOpportunityProjection list"

definition opportunity_step ::
  "real \<Rightarrow> real \<Rightarrow> real \<Rightarrow> nat \<Rightarrow> opportunity_state \<Rightarrow> opportunity_state" where
  \<comment> \<open>The loop body at \<^verbatim>\<open>month = m\<close>.\<close>
  "opportunity_step initialAmount monthlyInvestment monthlyReturn m s =
     (let investmentValue' = os_investmentValue s * (1 + monthlyReturn) + monthlyInvestment;
          cumulative' = os_cumulativeMonthlyInvestment s + monthlyInvestment
      in \<lparr> os_totalInvested = initialAmount + cumulative',
           os_investmentValue = investmentValue',
           os_cumulativeMonthlyInvestment = cumulative',
           os_projections = os_projections s @
             [\<lparr> mop_month = m,
                mop_investmentContribution = monthlyInvestment,
                mop_investmentValue = Math_round investmentValue',
                mop_netWorth = Math_round investmentValue',
                mop_loanBalance = None,
                mop_loanPayment = None \<rparr>] \<rparr>)"

definition calculateOpportunityAnalysis ::
  "real \<Rightarrow> real \<Rightarrow> real \<Rightarrow> int \<Rightarrow> OpportunityAnalysis" where
  "calculateOpportunityAnalysis initialAmount monthlyInvestment annualReturn months =
     (let monthlyReturn = annualReturn / 12;
          s = for_month (opportunity_step initialAmount monthlyInvestment monthlyReturn)
                1 (nat months)
                \<lparr> os_totalInvested = initialAmount,
                  os_investmentValue = initialAmount,
                  os_cumulativeMonthlyInvestment = 0,
                  os_projections = [] \<rparr>;
          finalValue = real_of_int (Math_round (os_investmentValue s));
          investmentReturns = finalValue - os_totalInvested s
      in \<lparr> oa_totalInvested = Math_round (os_totalInvested s),
           oa_investmentReturns = Math_round investmentReturns,
           oa_finalValue = finalValue,
           oa_monthlyProjections = os_projections s \<rparr>)"

subsection \<open>calculateLumpSumScenario, calculateLoanScenario\<close>

datatype PaymentMethod = lump_sum | loan

record LumpSumScenario =
  lump_paymentMethod :: PaymentMethod
  lump_initialPayment :: real
  lump_remainingSavings :: real
  lump_investmentReturn :: real
  lump_projectedYears :: real
  lump_monthlyInvestment :: real
  lump_finalAssets :: real
  lump_totalCost :: real
  lump_opportunity :: OpportunityAnalysis

definition calculateLumpSumScenario ::
  "real \<Rightarrow> real \<Rightarrow> real \<Rightarrow> real \<Rightarrow> real \<Rightarrow> LumpSumScenario" where
  "calculateLumpSumScenario productPrice currentSavings investmentReturn projectedYears
       monthlyInvestment =
     (let remainingSavings = max 0 (currentSavings - productPrice);
          months = Math_round (projectedYears * 12);
          opportunity = calculateOpportunityAnalysis remainingSavings monthlyInvestment
                          investmentReturn months
      in \<lparr> lump_paymentMethod = lump_sum,
           lump_initialPayment = productPrice,
           lump_remainingSavings = remainingSavings,
           lump_investmentReturn = investmentReturn,
           lump_projectedYears = projectedYears,
           lump_monthlyInvestment = monthlyInvestment,
           lump_finalAssets = oa_finalValue opportunity,
           lump_totalCost = productPrice,
           lump_opportunity = opportunity \<rparr>)"

record LoanScenario =
  loan_paymentMethod :: PaymentMethod
  loan_downPayment :: real
  loan_loanAmount :: real
  loan_interestRate :: real
  loan_loanTermMonths :: nat
  loan_monthlyPayment :: real
  loan_totalInterest :: real
  loan_totalCost :: real
  loan_remainingSavings :: real
  loan_investmentReturn :: real
  loan_monthlyInvestment :: real
  loan_finalAssets :: real
  loan_opportunity :: OpportunityAnalysis

text \<open>
  The second loop of \<^verbatim>\<open>calculateLoanScenario\<close> overlays the loan balance on the
  projections of the opportunity analysis. It reads
  \<^verbatim>\<open>opportunity.monthlyProjections[month - 1]\<close> for \<open>month\<close> from 1 to \<open>months\<close>,
  which is always in range: the analysis was run for the same \<open>months\<close>.
\<close>

record enhance_state =
  es_loanBalance :: real
  es_projections :: "MonthlyOpportunityProjection list"

definition enhance_step ::
  "real \<Rightarrow> nat \<Rightarrow> real \<Rightarrow> MonthlyOpportunityProjection list \<Rightarrow> nat
     \<Rightarrow> enhance_state \<Rightarrow> enhance_state" where
  "enhance_step loanInterestRate loanTermMonths monthlyPayment originals m s =
     (let originalProjection = originals ! (m - 1);
          loanBalance' =
            (if m \<le> loanTermMonths then
               (let interestPayment = es_loanBalance s * (loanInterestRate / 12);
                    principalPayment = monthlyPayment - interestPayment
                in max 0 (es_loanBalance s - principalPayment))
             else es_loanBalance s)
      in \<lparr> es_loanBalance = loanBalance',
           es_projections = es_projections s @
             [originalProjection
                \<lparr> mop_netWorth :=
                    Math_round (mop_investmentValue originalProjection
                      - (if m \<le> loanTermMonths then loanBalance' else 0)),
                  mop_loanBalance :=
                    Some (if m \<le> loanTermMonths then Math_round loanBalance' else 0),
                  mop_loanPayment :=
                    Some (if m \<le> loanTermMonths then Math_round monthlyPayment else 0) \<rparr>] \<rparr>)"

definition calculateLoanScenario ::
  "real \<Rightarrow> real \<Rightarrow> real \<Rightarrow> real \<Rightarrow> nat \<Rightarrow> real \<Rightarrow> real \<Rightarrow> real \<Rightarrow> LoanScenario" where
  "calculateLoanScenario productPrice currentSavings downPaymentPercentage loanInterestRate
       loanTermMonths investmentReturn projectedYears additionalMonthlyInvestment =
     (let downPayment = productPrice * (downPaymentPercentage / 100);
          loanAmount = productPrice - downPayment;
          monthlyPayment = calculateMonthlyLoanPayment loanAmount loanInterestRate loanTermMonths;
          totalInterest = (monthlyPayment * real loanTermMonths) - loanAmount;
          totalCost = productPrice + totalInterest;
          remainingSavings = max 0 (currentSavings - downPayment);
          months = Math_round (projectedYears * 12);
          netMonthlyInvestment = max 0 (additionalMonthlyInvestment - monthlyPayment);
          opportunity = calculateOpportunityAnalysis remainingSavings netMonthlyInvestment
                          investmentReturn months;
          enhanced = for_month
                       (enhance_step loanInterestRate loanTermMonths monthlyPayment
                          (oa_monthlyProjections opportunity))
                       1 (nat months)
                       \<lparr> es_loanBalance = loanAmount, es_projections = [] \<rparr>
      in \<lparr> loan_paymentMethod = loan,
           loan_downPayment = Math_round downPayment,
           loan_loanAmount = Math_round loanAmount,
           loan_interestRate = loanInterestRate,
           loan_loanTermMonths = loanTermMonths,
           loan_monthlyPayment = Math_round monthlyPayment,
           loan_totalInterest = Math_round totalInterest,
           loan_totalCost = Math_round totalCost,
           loan_remainingSavings = Math_round remainingSavings,
           loan_investmentReturn = investmentReturn,
           loan_monthlyInvestment = netMonthlyInvestment,
           loan_finalAssets = oa_finalValue opportunity,
           loan_opportunity = opportunity \<lparr> oa_monthlyProjections := es_projections enhanced \<rparr> \<rparr>)"

subsection \<open>calculatePurchaseSimulation\<close>

record LoanTerms =
  lt_downPaymentPercentage :: real
  lt_interestRate :: real
  lt_termMonths :: nat

record PurchaseSimulation =
  ps_goalId :: string
  ps_productName :: string
  ps_productPrice :: real
  ps_currentSavings :: real
  ps_lumpSumScenario :: LumpSumScenario
  ps_loanScenario :: LoanScenario
  ps_recommendation :: PaymentMethod
  ps_totalDifference :: real

definition calculatePurchaseSimulation ::
  "string \<Rightarrow> string \<Rightarrow> real \<Rightarrow> real \<Rightarrow> LoanTerms \<Rightarrow> real \<Rightarrow> real \<Rightarrow> real
     \<Rightarrow> PurchaseSimulation" where
  "calculatePurchaseSimulation goalId productName productPrice currentSavings loanTerms
       investmentReturn projectedYears monthlyInvestmentCapacity =
     (let lumpSumScenario = calculateLumpSumScenario productPrice currentSavings
            investmentReturn projectedYears monthlyInvestmentCapacity;
          loanScenario = calculateLoanScenario productPrice currentSavings
            (lt_downPaymentPercentage loanTerms) (lt_interestRate loanTerms)
            (lt_termMonths loanTerms) investmentReturn projectedYears
            monthlyInvestmentCapacity;
          lumpSumNetWorth = lump_finalAssets lumpSumScenario;
          loanNetWorth = loan_finalAssets loanScenario
                           - (loan_totalCost loanScenario - productPrice);
          totalDifference = lumpSumNetWorth - loanNetWorth;
          recommendation = (if totalDifference > 0 then lump_sum else loan)
      in \<lparr> ps_goalId = goalId,
           ps_productName = productName,
           ps_productPrice = productPrice,
           ps_currentSavings = currentSavings,
           ps_lumpSumScenario = lumpSumScenario,
           ps_loanScenario = loanScenario,
           ps_recommendation = recommendation,
           ps_totalDifference = Math_round \<bar>totalDifference\<bar> \<rparr>)"

subsection \<open>Numbers with the special values\<close>

text \<open>
  The optimisation sweep can be reached with a loan term of 0 months, where the payment
  formula divides by zero and the comparison \<^verbatim>\<open>roi > maxROI\<close> meets \<^verbatim>\<open>NaN\<close>. The
  functions on the path of the sweep are therefore embedded a second time, over numbers
  with the special values \<^verbatim>\<open>Infinity\<close>, \<^verbatim>\<open>-Infinity\<close> and \<^verbatim>\<open>NaN\<close>: the
  arithmetic on finite values stays exact, and the special values follow the rules of the
  source's number type (\<^verbatim>\<open>x / 0\<close> is an infinity with the sign of \<^verbatim>\<open>x\<close> and
  \<^verbatim>\<open>0 / 0\<close> is \<^verbatim>\<open>NaN\<close>; \<^verbatim>\<open>Infinity * 0\<close> and \<^verbatim>\<open>Infinity - Infinity\<close> are
  \<^verbatim>\<open>NaN\<close>; \<^verbatim>\<open>NaN\<close> propagates through arithmetic and \<^verbatim>\<open>Math.max\<close>, and every
  comparison with it is false). The zero divisors on this path are the term
  \<^verbatim>\<open>months\<close> and the difference \<^verbatim>\<open>factor - 1\<close>, both \<^verbatim>\<open>+0\<close>; the sign of a
  zero plays no part.
\<close>

datatype js_number = Num real | PosInfinity | NegInfinity | NaN

fun js_neg :: "js_number \<Rightarrow> js_number" where
  "js_neg (Num a) = Num (- a)"
| "js_neg PosInfinity = NegInfinity"
| "js_neg NegInfinity = PosInfinity"
| "js_neg NaN = NaN"

fun js_add :: "js_number \<Rightarrow> js_number \<Rightarrow> js_number" where
  "js_add (Num a) (Num b) = Num (a + b)"
| "js_add NaN y = NaN"
| "js_add x NaN = NaN"
| "js_add PosInfinity NegInfinity = NaN"
| "js_add NegInfinity PosInfinity = NaN"
| "js_add PosInfinity y = PosInfinity"
| "js_add x PosInfinity = PosInfinity"
| "js_add NegInfinity y = NegInfinity"
| "js_add x NegInfinity = NegInfinity"

definition js_sub :: "js_number \<Rightarrow> js_number \<Rightarrow> js_number" where
  "js_sub x y = js_add x (js_neg y)"

fun js_negative :: "js_number \<Rightarrow> bool" where
  "js_negative (Num a) = (a < 0)"
| "js_negative NegInfinity = True"
| "js_negative PosInfinity = False"
| "js_negative NaN = False"

fun js_mul :: "js_number \<Rightarrow> js_number \<Rightarrow> js_number" where
  "js_mul (Num a) (Num b) = Num (a * b)"
| "js_mul NaN y = NaN"
| "js_mul x NaN = NaN"
| "js_mul x y =
     (if x = Num 0 \<or> y = Num 0 then NaN
      else if js_negative x = js_negative y then PosInfinity
      else NegInfinity)"

fun js_div :: "js_number \<Rightarrow> js_number \<Rightarrow> js_number" where
  "js_div NaN y = NaN"
| "js_div x NaN = NaN"
| "js_div (Num a) (Num b) =
     (if b \<noteq> 0 then Num (a / b)
      else if a = 0 then NaN
      else if a > 0 then PosInfinity
      else NegInfinity)"
| "js_div (Num a) y = Num 0"
| "js_div x (Num b) = (if js_negative x = (b < 0) then PosInfinity else NegInfinity)"
| "js_div x y = NaN"

fun js_max :: "js_number \<Rightarrow> js_number \<Rightarrow> js_number" where
  \<comment> \<open>\<^verbatim>\<open>Math.max\<close>\<close>
  "js_max NaN y = NaN"
| "js_max x NaN = NaN"
| "js_max PosInfinity y = PosInfinity"
| "js_max x PosInfinity = PosInfinity"
| "js_max NegInfinity y = y"
| "js_max x NegInfinity = x"
| "js_max (Num a) (Num b) = Num (max a b)"

fun js_le :: "js_number \<Rightarrow> js_number \<Rightarrow> bool" where
  \<comment> \<open>\<^verbatim>\<open>x <= y\<close>\<close>
  "js_le NaN y = False"
| "js_le x NaN = False"
| "js_le NegInfinity y = True"
| "js_le x PosInfinity = True"
| "js_le (Num a) (Num b) = (a \<le> b)"
| "js_le x y = False"

fun js_gt :: "js_number \<Rightarrow> js_number \<Rightarrow> bool" where
  \<comment> \<open>\<^verbatim>\<open>x > y\<close>\<close>
  "js_gt NaN y = False"
| "js_gt x NaN = False"
| "js_gt (Num a) (Num b) = (a > b)"
| "js_gt PosInfinity PosInfinity = False"
| "js_gt PosInfinity y = True"
| "js_gt x NegInfinity = (x \<noteq> NegInfinity)"
| "js_gt x y = False"

fun js_round :: "js_number \<Rightarrow> js_number" where
  \<comment> \<open>\<^verbatim>\<open>Math.round\<close>, which leaves the special values as they are\<close>
  "js_round (Num a) = Num (real_of_int (Math_round a))"
| "js_round x = x"

definition js_or0 :: "js_number \<Rightarrow> js_number" where
  \<comment> \<open>\<^verbatim>\<open>x || 0\<close>: \<^verbatim>\<open>0\<close> and \<^verbatim>\<open>NaN\<close> are falsy\<close>
  "js_or0 x = (if x = NaN \<or> x = Num 0 then Num 0 else x)"

subsection \<open>The path of the sweep: payment, opportunity analysis, loan scenario, ROI\<close>

text \<open>
  The arguments are finite numbers, so what the source computes before its first
  division is exact arithmetic on reals; from the division on, the values are
  \<^typ>\<open>js_number\<close>s. The definitions follow the same source lines as
  \<open>calculateMonthlyLoanPayment\<close>, \<open>calculateOpportunityAnalysis\<close>,
  \<open>calculateLoanScenario\<close> and \<open>calculateROI\<close> above, and agree with them wherever the
  payment's divisor is not zero.
\<close>

definition calculateMonthlyLoanPayment_js :: "real \<Rightarrow> real \<Rightarrow> nat \<Rightarrow> js_number" where
  "calculateMonthlyLoanPayment_js principalAmt annualRate months =
     (if annualRate = 0 then js_div (Num principalAmt) (Num (real months))
      else
        (let monthlyRate = annualRate / 12;
             factor = (1 + monthlyRate) ^ months
         in js_div (Num (principalAmt * (monthlyRate * factor))) (Num (factor - 1))))"

definition calculateROI_js :: "real \<Rightarrow> js_number \<Rightarrow> js_number \<Rightarrow> js_number" where
  "calculateROI_js initialInvestment finalAssets totalCost =
     (if js_le totalCost (Num 0) then Num 0
      else js_mul (js_div (js_sub finalAssets totalCost) totalCost) (Num 100))"

record MonthlyOpportunityProjection_js =
  jmop_month :: nat
  jmop_investmentContribution :: js_number
  jmop_investmentValue :: js_number
  jmop_netWorth :: js_number
  jmop_loanBalance :: "js_number option"
  jmop_loanPayment :: "js_number option"

record OpportunityAnalysis_js =
  joa_totalInvested :: js_number
  joa_investmentReturns :: js_number
  joa_finalValue :: js_number
  joa_monthlyProjections :: "MonthlyOpportunityProjection_js list"

record opportunity_state_js =
  jos_totalInvested :: js_number
  jos_investmentValue :: js_number
  jos_cumulativeMonthlyInvestment :: js_number
  jos_projections :: "MonthlyOpportunityProjection_js list"

definition opportunity_step_js ::
  "real \<Rightarrow> js_number \<Rightarrow> real \<Rightarrow> nat \<Rightarrow> opportunity_state_js \<Rightarrow> opportunity_state_js" where
  "opportunity_step_js initialAmount monthlyInvestment monthlyReturn m s =
     (let investmentValue' =
            js_add (js_mul (jos_investmentValue s) (Num (1 + monthlyReturn))) monthlyInvestment;
          cumulative' = js_add (jos_cumulativeMonthlyInvestment s) monthlyInvestment
      in \<lparr> jos_totalInvested = js_add (Num initialAmount) cumulative',
           jos_investmentValue = investmentValue',
           jos_cumulativeMonthlyInvestment = cumulative',
           jos_projections = jos_projections s @
             [\<lparr> jmop_month = m,
                jmop_investmentContribution = monthlyInvestment,
                jmop_investmentValue = js_round investmentValue',
                jmop_netWorth = js_round investmentValue',
                jmop_loanBalance = None,
                jmop_loanPayment = None \<rparr>] \<rparr>)"

definition calculateOpportunityAnalysis_js ::
  "real \<Rightarrow> js_number \<Rightarrow> real \<Rightarrow> int \<Rightarrow> OpportunityAnalysis_js" where
  "calculateOpportunityAnalysis_js initialAmount monthlyInvestment annualReturn months =
     (let monthlyReturn = annualReturn / 12;
          s = for_month (opportunity_step_js initialAmount monthlyInvestment monthlyReturn)
                1 (nat months)
                \<lparr> jos_totalInvested = Num initialAmount,
                  jos_investmentValue = Num initialAmount,
                  jos_cumulativeMonthlyInvestment = Num 0,
                  jos_projections = [] \<rparr>;
          finalValue = js_round (jos_investmentValue s);
          investmentReturns = js_sub finalValue (jos_totalInvested s)
      in \<lparr> joa_totalInvested = js_round (jos_totalInvested s),
           joa_investmentReturns = js_round investmentReturns,
           joa_finalValue = finalValue,
           joa_monthlyProjections = jos_projections s \<rparr>)"

record LoanScenario_js =
  jloan_paymentMethod :: PaymentMethod
  jloan_downPayment :: real
  jloan_loanAmount :: real
  jloan_interestRate :: real
  jloan_loanTermMonths :: nat
  jloan_monthlyPayment :: js_number
  jloan_totalInterest :: js_number
  jloan_totalCost :: js_number
  jloan_remainingSavings :: real
  jloan_investmentReturn :: real
  jloan_monthlyInvestment :: js_number
  jloan_finalAssets :: js_number
  jloan_opportunity :: OpportunityAnalysis_js

record enhance_state_js =
  jes_loanBalance :: js_number
  jes_projections :: "MonthlyOpportunityProjection_js list"

definition enhance_step_js ::
  "real \<Rightarrow> nat \<Rightarrow> js_number \<Rightarrow> MonthlyOpportunityProjection_js list \<Rightarrow> nat
     \<Rightarrow> enhance_state_js \<Rightarrow> enhance_state_js" where
  "enhance_step_js loanInterestRate loanTermMonths monthlyPayment originals m s =
     (let originalProjection = originals ! (m - 1);
          loanBalance' =
            (if m \<le> loanTermMonths then
               (let interestPayment = js_mul (jes_loanBalance s) (Num (loanInterestRate / 12));
                    principalPayment = js_sub monthlyPayment interestPayment
                in js_max (Num 0) (js_sub (jes_loanBalance s) principalPayment))
             else jes_loanBalance s)
      in \<lparr> jes_loanBalance = loanBalance',
           jes_projections = jes_projections s @
             [originalProjection
                \<lparr> jmop_netWorth :=
                    js_round (js_sub (jmop_investmentValue originalProjection)
                      (if m \<le> loanTermMonths then loanBalance' else Num 0)),
                  jmop_loanBalance :=
                    Some (if m \<le> loanTermMonths then js_round loanBalance' else Num 0),
                  jmop_loanPayment :=
                    Some (if m \<le> loanTermMonths then js_round monthlyPayment else Num 0) \<rparr>] \<rparr>)"

definition calculateLoanScenario_js ::
  "real \<Rightarrow> real \<Rightarrow> real \<Rightarrow> real \<Rightarrow> nat \<Rightarrow> real \<Rightarrow> real \<Rightarrow> real \<Rightarrow> LoanScenario_js" where
  "calculateLoanScenario_js productPrice currentSavings downPaymentPercentage loanInterestRate
       loanTermMonths investmentReturn projectedYears additionalMonthlyInvestment =
     (let downPayment = productPrice * (downPaymentPercentage / 100);
          loanAmount = productPrice - downPayment;
          monthlyPayment =
            calculateMonthlyLoanPayment_js loanAmount loanInterestRate loanTermMonths;
          totalInterest =
            js_sub (js_mul monthlyPayment (Num (real loanTermMonths))) (Num loanAmount);
          totalCost = js_add (Num productPrice) totalInterest;
          remainingSavings = max 0 (currentSavings - downPayment);
          months = Math_round (projectedYears * 12);
          netMonthlyInvestment =
            js_max (Num 0) (js_sub (Num additionalMonthlyInvestment) monthlyPayment);
          opportunity = calculateOpportunityAnalysis_js remainingSavings netMonthlyInvestment
                          investmentReturn months;
          enhanced = for_month
                       (enhance_step_js loanInterestRate loanTermMonths monthlyPayment
                          (joa_monthlyProjections opportunity))
                       1 (nat months)
                       \<lparr> jes_loanBalance = Num loanAmount, jes_projections = [] \<rparr>
      in \<lparr> jloan_paymentMethod = loan,
           jloan_downPayment = Math_round downPayment,
           jloan_loanAmount = Math_round loanAmount,
           jloan_interestRate = loanInterestRate,
           jloan_loanTermMonths = loanTermMonths,
           jloan_monthlyPayment = js_round monthlyPayment,
           jloan_totalInterest = js_round totalInterest,
           jloan_totalCost = js_round totalCost,
           jloan_remainingSavings = Math_round remainingSavings,
           jloan_investmentReturn = investmentReturn,
           jloan_monthlyInvestment = netMonthlyInvestment,
           jloan_finalAssets = joa_finalValue opportunity,
           jloan_opportunity =
             opportunity \<lparr> joa_monthlyProjections := jes_projections enhanced \<rparr> \<rparr>)"

subsection \<open>calculateROIForDownPayment, findOptimalDownPaymentForROI\<close>

text \<open>
  The body of the \<^verbatim>\<open>try\<close> block is arithmetic on numbers and reads of fields that
  exist, so nothing in it throws and the \<^verbatim>\<open>catch\<close> branch
  (\<^verbatim>\<open>{ roi: -Infinity, scenario: null }\<close>) is never taken; the result type keeps room
  for it.
\<close>

definition calculateROIForDownPayment ::
  "real \<Rightarrow> real \<Rightarrow> real \<Rightarrow> real \<Rightarrow> nat \<Rightarrow> real \<Rightarrow> real \<Rightarrow> real
     \<Rightarrow> js_number \<times> LoanScenario_js option" where
  "calculateROIForDownPayment productPrice currentSavings downPaymentPercentage
       loanInterestRate loanTermMonths investmentReturn projectedYears
       monthlyInvestmentCapacity =
     (let loanScenario = calculateLoanScenario_js productPrice currentSavings
            downPaymentPercentage loanInterestRate loanTermMonths investmentReturn
            projectedYears monthlyInvestmentCapacity;
          roi = calculateROI_js currentSavings (jloan_finalAssets loanScenario)
                  (jloan_totalCost loanScenario)
      in (roi, Some loanScenario))"

record roi_entry =
  re_downPayment :: int
  re_roi :: js_number
  re_finalAssets :: js_number
  re_totalCost :: js_number
  re_monthlyPayment :: js_number
  re_feasible :: bool

record roi_optimization =
  opt_optimalDownPayment :: int
  opt_maxROI :: js_number
  opt_roiAnalysis :: "roi_entry list"

definition sweep_step ::
  "real \<Rightarrow> real \<Rightarrow> real \<Rightarrow> nat \<Rightarrow> real \<Rightarrow> real \<Rightarrow> real \<Rightarrow> int
     \<Rightarrow> roi_optimization \<Rightarrow> roi_optimization" where
  \<comment> \<open>The loop body at the percentage \<open>dp\<close>; the state holds the three variables
      \<^verbatim>\<open>optimalDownPayment\<close>, \<^verbatim>\<open>maxROI\<close> and \<^verbatim>\<open>roiAnalysis\<close>.\<close>
  "sweep_step productPrice currentSavings loanInterestRate loanTermMonths investmentReturn
       projectedYears monthlyInvestmentCapacity dp s =
     (let requiredDownPayment = productPrice * (real_of_int dp / 100);
          feasible = (requiredDownPayment \<le> currentSavings)
      in if feasible then
           (let (roi, scenario) = calculateROIForDownPayment productPrice currentSavings
                  (real_of_int dp) loanInterestRate loanTermMonths investmentReturn
                  projectedYears monthlyInvestmentCapacity;
                s' = s \<lparr> opt_roiAnalysis := opt_roiAnalysis s @
                       [\<lparr> re_downPayment = dp,
                          re_roi = roi,
                          re_finalAssets =
                            (case scenario of None \<Rightarrow> Num 0
                             | Some sc \<Rightarrow> js_or0 (jloan_finalAssets sc)),
                          re_totalCost =
                            (case scenario of None \<Rightarrow> Num 0
                             | Some sc \<Rightarrow> js_or0 (jloan_totalCost sc)),
                          re_monthlyPayment =
                            (case scenario of None \<Rightarrow> Num 0
                             | Some sc \<Rightarrow> js_or0 (jloan_monthlyPayment sc)),
                          re_feasible = True \<rparr>] \<rparr>
            in if js_gt roi (opt_maxROI s)
               then s' \<lparr> opt_maxROI := roi, opt_optimalDownPayment := dp \<rparr>
               else s')
         else s \<lparr> opt_roiAnalysis := opt_roiAnalysis s @
                [\<lparr> re_downPayment = dp,
                   re_roi = NegInfinity,
                   re_finalAssets = Num 0,
                   re_totalCost = Num 0,
                   re_monthlyPayment = Num 0,
                   re_feasible = False \<rparr>] \<rparr>)"

function for_dp :: "(int \<Rightarrow> 's \<Rightarrow> 's) \<Rightarrow> int \<Rightarrow> int \<Rightarrow> 's \<Rightarrow> 's" where
  \<comment> \<open>\<^verbatim>\<open>for (let dp = dp0; dp <= maxDownPayment; dp += 1) body\<close>\<close>
  "for_dp body dp maxDownPayment s =
     (if dp \<le> maxDownPayment then for_dp body (dp + 1) maxDownPayment (body dp s) else s)"
  by pat_completeness auto
termination
  by (relation "measure (\<lambda>(body, dp, maxDownPayment, s). nat (maxDownPayment + 1 - dp))") auto

declare for_dp.simps [simp del]

definition findOptimalDownPaymentForROI ::
  "real \<Rightarrow> real \<Rightarrow> real \<Rightarrow> nat \<Rightarrow> real \<Rightarrow> real \<Rightarrow> real \<Rightarrow> int \<Rightarrow> int
     \<Rightarrow> roi_optimization" where
  "findOptimalDownPaymentForROI productPrice currentSavings loanInterestRate loanTermMonths
       investmentReturn projectedYears monthlyInvestmentCapacity minDownPayment
       maxDownPayment =
     for_dp
       (sweep_step productPrice currentSavings loanInterestRate loanTermMonths
          investmentReturn projectedYears monthlyInvestmentCapacity)
       minDownPayment maxDownPayment
       \<lparr> opt_optimalDownPayment = minDownPayment,
         opt_maxROI = NegInfinity,
         opt_roiAnalysis = [] \<rparr>"


section \<open>investmentCalculations.ts\<close>

subsection \<open>calculateInvestmentPeriod\<close>

function period_loop :: "real \<Rightarrow> real \<Rightarrow> real \<Rightarrow> nat \<Rightarrow> real \<Rightarrow> nat" where
  \<comment> \<open>\<^verbatim>\<open>while (currentValue < targetAmount && months < 1200) { ...; months++ }\<close>,
      returning \<^verbatim>\<open>months\<close>.\<close>
  "period_loop targetAmount monthlyReturn monthlyInvestment months currentValue =
     (if currentValue < targetAmount \<and> months < 1200
      then period_loop targetAmount monthlyReturn monthlyInvestment (Suc months)
             (currentValue * (1 + monthlyReturn) + monthlyInvestment)
      else months)"
  by pat_completeness auto
termination
  by (relation "measure (\<lambda>(targetAmount, monthlyReturn, monthlyInvestment, months, currentValue).
        1200 - months)") auto

declare period_loop.simps [simp del]

definition calculateInvestmentPeriod :: "real \<Rightarrow> real \<Rightarrow> real \<Rightarrow> real \<Rightarrow> enat" where
  \<comment> \<open>The result is a number of months or \<^verbatim>\<open>Infinity\<close> (\<open>\<infinity>\<close>).\<close>
  "calculateInvestmentPeriod currentAmount targetAmount monthlyInvestment annualReturn =
     (if currentAmount \<ge> targetAmount then 0
      else if monthlyInvestment \<le> 0 then \<infinity>
      else
        (let monthlyReturn = annualReturn / 12;
             remainingAmount = targetAmount - currentAmount
         in if monthlyReturn = 0
            then enat (nat (Math_ceil (remainingAmount / monthlyInvestment)))
            else enat (period_loop targetAmount monthlyReturn monthlyInvestment 0
                         currentAmount)))"

subsection \<open>calculateInvestmentScenarios\<close>

record InvestmentScenario =
  sc_annualReturn :: real
  sc_projectedMonths :: enat
  sc_totalValue :: real
  sc_totalReturns :: real

record InvestmentScenarios =
  scs_conservative :: InvestmentScenario
  scs_expected :: InvestmentScenario
  scs_optimistic :: InvestmentScenario

definition scenario_final :: "real \<Rightarrow> real \<Rightarrow> real \<Rightarrow> InvestmentScenario \<Rightarrow> InvestmentScenario" where
  \<comment> \<open>The body of \<^verbatim>\<open>scenarios.forEach\<close>, which fills in \<^verbatim>\<open>totalValue\<close> and
      \<^verbatim>\<open>totalReturns\<close> of one scenario.\<close>
  "scenario_final currentAmount targetAmount monthlyInvestment scenario =
     (if sc_projectedMonths scenario < 1200 then
        (let monthlyReturn = sc_annualReturn scenario / 12;
             n = the_enat (sc_projectedMonths scenario);
             v = replay monthlyReturn monthlyInvestment n currentAmount
         in scenario
              \<lparr> sc_totalValue := Math_round v,
                sc_totalReturns :=
                  Math_round (v - currentAmount - (monthlyInvestment * real n)) \<rparr>)
      else scenario \<lparr> sc_totalValue := targetAmount, sc_totalReturns := 0 \<rparr>)"

definition calculateInvestmentScenarios ::
  "real \<Rightarrow> real \<Rightarrow> real \<Rightarrow> real \<Rightarrow> InvestmentScenarios" where
  "calculateInvestmentScenarios currentAmount targetAmount monthlyInvestment expectedReturn =
     (let volatility = 0.15;
          conservativeReturn = max 0.01 (expectedReturn - volatility);
          optimisticReturn = expectedReturn + volatility;
          conservative =
            \<lparr> sc_annualReturn = conservativeReturn,
              sc_projectedMonths = calculateInvestmentPeriod currentAmount targetAmount
                                     monthlyInvestment conservativeReturn,
              sc_totalValue = 0,
              sc_totalReturns = 0 \<rparr>;
          expected =
            \<lparr> sc_annualReturn = expectedReturn,
              sc_projectedMonths = calculateInvestmentPeriod currentAmount targetAmount
                                     monthlyInvestment expectedReturn,
              sc_totalValue = 0,
              sc_totalReturns = 0 \<rparr>;
          optimistic =
            \<lparr> sc_annualReturn = optimisticReturn,
              sc_projectedMonths = calculateInvestmentPeriod currentAmount targetAmount
                                     monthlyInvestment optimisticReturn,
              sc_totalValue = 0,
              sc_totalReturns = 0 \<rparr>
      in \<lparr> scs_conservative = scenario_final currentAmount targetAmount monthlyInvestment
                                conservative,
           scs_expected = scenario_final currentAmount targetAmount monthlyInvestment expected,
           scs_optimistic = scenario_final currentAmount targetAmount monthlyInvestment
                              optimistic \<rparr>)"

subsection \<open>calculateInvestmentSimulation\<close>

record MonthlyInvestmentProjection =
  mip_month :: nat
  mip_monthlyInvestment :: real
  mip_cumulativeInvestment :: real
  mip_monthlyReturn :: real
  mip_cumulativeReturns :: real
  mip_totalValue :: real
  mip_progress :: real

text \<open>
  \<^verbatim>\<open>projectedCompletionDate\<close> is the wall clock advanced by \<^verbatim>\<open>projectedMonths\<close>
  months and is left out. \<^verbatim>\<open>totalInvested\<close> and \<^verbatim>\<open>totalReturns\<close> are computed from
  \<^verbatim>\<open>projectedMonths * monthlyInvestment\<close>, which is not a finite number when
  \<^verbatim>\<open>projectedMonths\<close> is \<^verbatim>\<open>Infinity\<close>: they are \<open>None\<close> then.
\<close>

record InvestmentSimulation =
  sim_goalId :: string
  sim_currentAmount :: real
  sim_targetAmount :: real
  sim_monthlyInvestment :: real
  sim_annualReturn :: real
  sim_projectedMonths :: enat
  sim_totalInvested :: "real option"
  sim_totalReturns :: "real option"
  sim_monthlyProjections :: "MonthlyInvestmentProjection list"
  sim_scenarios :: InvestmentScenarios

record trajectory_state =
  ts_cumulativeInvestment :: real
  ts_cumulativeReturns :: real
  ts_totalValue :: real
  ts_projections :: "MonthlyInvestmentProjection list"

definition trajectory_step ::
  "real \<Rightarrow> real \<Rightarrow> real \<Rightarrow> nat \<Rightarrow> trajectory_state \<Rightarrow> trajectory_state" where
  \<comment> \<open>The loop body at \<^verbatim>\<open>month = m\<close>, up to the \<^verbatim>\<open>push\<close>.\<close>
  "trajectory_step targetAmount monthlyInvestment monthlyReturn m s =
     (let monthlyReturn_amount = ts_totalValue s * monthlyReturn;
          totalValue' = ts_totalValue s * (1 + monthlyReturn) + monthlyInvestment;
          cumulativeInvestment' = ts_cumulativeInvestment s + monthlyInvestment;
          cumulativeReturns' = ts_cumulativeReturns s + monthlyReturn_amount;
          progress = min ((totalValue' / targetAmount) * 100) 100
      in \<lparr> ts_cumulativeInvestment = cumulativeInvestment',
           ts_cumulativeReturns = cumulativeReturns',
           ts_totalValue = totalValue',
           ts_projections = ts_projections s @
             [\<lparr> mip_month = m,
                mip_monthlyInvestment = monthlyInvestment,
                mip_cumulativeInvestment = Math_round cumulativeInvestment',
                mip_monthlyReturn = Math_round monthlyReturn_amount,
                mip_cumulativeReturns = Math_round cumulativeReturns',
                mip_totalValue = Math_round totalValue',
                mip_progress = real_of_int (Math_round (progress * 100)) / 100 \<rparr>] \<rparr>)"

function trajectory_loop ::
  "real \<Rightarrow> real \<Rightarrow> real \<Rightarrow> nat \<Rightarrow> nat \<Rightarrow> trajectory_state \<Rightarrow> trajectory_state" where
  \<comment> \<open>\<^verbatim>\<open>for (month = m; month <= limit; month++) { ...; if (totalValue >= targetAmount) break }\<close>\<close>
  "trajectory_loop targetAmount monthlyInvestment monthlyReturn limit m s =
     (if m \<le> limit then
        (let s' = trajectory_step targetAmount monthlyInvestment monthlyReturn m s
         in if ts_totalValue s' \<ge> targetAmount then s'
            else trajectory_loop targetAmount monthlyInvestment monthlyReturn limit (Suc m) s')
      else s)"
  by pat_completeness auto
termination
  by (relation "measure (\<lambda>(targetAmount, monthlyInvestment, monthlyReturn, limit, m, s).
        Suc limit - m)") auto

declare trajectory_loop.simps [simp del]

definition calculateInvestmentSimulation ::
  "string \<Rightarrow> real \<Rightarrow> real \<Rightarrow> real \<Rightarrow> real \<Rightarrow> InvestmentSimulation" where
  "calculateInvestmentSimulation goalId currentAmount targetAmount monthlyInvestment
       annualReturn =
     (let monthlyReturn = annualReturn / 12;
          projectedMonths = calculateInvestmentPeriod currentAmount targetAmount
                              monthlyInvestment annualReturn;
          s = trajectory_loop targetAmount monthlyInvestment monthlyReturn
                (the_enat (min projectedMonths 600)) 1
                \<lparr> ts_cumulativeInvestment = 0,
                  ts_cumulativeReturns = 0,
                  ts_totalValue = currentAmount,
                  ts_projections = [] \<rparr>;
          monthlyProjections = ts_projections s;
          scenarios = calculateInvestmentScenarios currentAmount targetAmount
                        monthlyInvestment annualReturn;
          finalValue =
            (if monthlyProjections = [] \<or> mip_totalValue (last monthlyProjections) = 0
             then ts_totalValue s
             else mip_totalValue (last monthlyProjections))
      in \<lparr> sim_goalId = goalId,
           sim_currentAmount = currentAmount,
           sim_targetAmount = targetAmount,
           sim_monthlyInvestment = monthlyInvestment,
           sim_annualReturn = annualReturn,
           sim_projectedMonths = projectedMonths,
           sim_totalInvested =
             (case projectedMonths of
                enat n \<Rightarrow> Some (real_of_int (Math_round (real n * monthlyInvestment)))
              | \<infinity> \<Rightarrow> None),
           sim_totalReturns =
             (case projectedMonths of
                enat n \<Rightarrow> Some (real_of_int (Math_round
                            (finalValue - currentAmount - real n * monthlyInvestment)))
              | \<infinity> \<Rightarrow> None),
           sim_monthlyProjections = monthlyProjections,
           sim_scenarios = scenarios \<rparr>)"

section \<open>calculations.ts\<close>

subsection \<open>calculateMonthlyPayment, calculateLoanDetails\<close>







section \<open>Properties of purchaseCalculations.ts\<close>

subsection \<open>Loan payment and ROI on the tested inputs\<close>

lemma loan_payment_1000_12pct_12:
  "calculateMonthlyLoanPayment 1000 0.12 12 =
     11268250301319697206612010 / 126825030131969720661201"
  by (simp add: calculateMonthlyLoanPayment_def Let_def power_divide)

text \<open>
  C7, as the specification states it, asks for the payment on 1000 at 12 percent over 12
  months to lie within \<open>10\<^sup>-\<^sup>6\<close> of 88.8488. The payment is 88.848788678..., which is
  further than that from 88.8488: the four-decimal figure is the rounded display of the
  value, not a value the \<open>10\<^sup>-\<^sup>6\<close> tolerance can be measured against.
\<close>

theorem loan_payment_88_8488_counterexample:
  "\<not> \<bar>calculateMonthlyLoanPayment 1000 0.12 12 - 88.8488\<bar> \<le> 1 / 10 ^ 6"
  unfolding loan_payment_1000_12pct_12 by simp

text \<open>
  C7 (amended): at a zero rate the payment is \<open>principal / n\<close> for every \<open>n \<ge> 1\<close>;
  \<open>calculateMonthlyLoanPayment(1200, 0, 12) = 100\<close>;
  \<open>calculateMonthlyLoanPayment(1000, 0.12, 12)\<close> is within \<open>10\<^sup>-\<^sup>6\<close> of
  88.84878867834166 (the figure of the repository's test), hence within \<open>10\<^sup>-\<^sup>4\<close> of
  88.8488; \<open>calculateROI(1000, 1000, 1000) = 0\<close> and \<open>calculateROI(1000, 1100, 1000) = 10\<close>.
\<close>

theorem loan_payment_and_roi_examples:
  "(1 \<le> n \<longrightarrow> calculateMonthlyLoanPayment p 0 n = p / real n)
   \<and> calculateMonthlyLoanPayment 1200 0 12 = 100
   \<and> \<bar>calculateMonthlyLoanPayment 1000 0.12 12 - 88.84878867834166\<bar> < 1 / 10 ^ 6
   \<and> \<bar>calculateMonthlyLoanPayment 1000 0.12 12 - 88.8488\<bar> \<le> 1 / 10 ^ 4
   \<and> calculateROI 1000 1000 1000 = 0
   \<and> calculateROI 1000 1100 1000 = 10"
proof -
  have "\<bar>calculateMonthlyLoanPayment 1000 0.12 12 - 88.84878867834166\<bar> < 1 / 10 ^ 6"
    unfolding loan_payment_1000_12pct_12 by simp
  moreover have "\<bar>calculateMonthlyLoanPayment 1000 0.12 12 - 88.8488\<bar> \<le> 1 / 10 ^ 4"
    unfolding loan_payment_1000_12pct_12 by simp
  moreover have "calculateMonthlyLoanPayment p 0 n = p / real n"
    by (simp add: calculateMonthlyLoanPayment_def)
  moreover have "calculateMonthlyLoanPayment 1200 0 12 = 100"
    by (simp add: calculateMonthlyLoanPayment_def)
  moreover have "calculateROI 1000 1000 1000 = 0" "calculateROI 1000 1100 1000 = 10"
    by (simp_all add: calculateROI_def)
  ultimately show ?thesis by blast
qed

theorem loan_payment_and_roi_examples_witness:
  "calculateMonthlyLoanPayment 600 0 6 = 100"
  using loan_payment_and_roi_examples [of 6 600] by simp

subsection \<open>The opportunity analysis emits one point per month\<close>

lemma opportunity_step_simps:
  "os_investmentValue (opportunity_step a mi r m s) = os_investmentValue s * (1 + r) + mi"
  "os_projections (opportunity_step a mi r m s) = os_projections s @
     [\<lparr> mop_month = m, mop_investmentContribution = mi,
        mop_investmentValue = Math_round (os_investmentValue s * (1 + r) + mi),
        mop_netWorth = Math_round (os_investmentValue s * (1 + r) + mi),
        mop_loanBalance = None, mop_loanPayment = None \<rparr>]"
  by (simp_all add: opportunity_step_def Let_def)

lemma opportunity_loop_value:
  "os_investmentValue (for_month (opportunity_step a mi r) m k s) =
     replay r mi k (os_investmentValue s)"
  by (induction k arbitrary: m s) (simp_all add: opportunity_step_simps)

lemma opportunity_loop_projections:
  "os_projections (for_month (opportunity_step a mi r) m k s) =
     os_projections s @
     map (\<lambda>j. \<lparr> mop_month = m + j, mop_investmentContribution = mi,
                mop_investmentValue = Math_round (replay r mi (Suc j) (os_investmentValue s)),
                mop_netWorth = Math_round (replay r mi (Suc j) (os_investmentValue s)),
                mop_loanBalance = None, mop_loanPayment = None \<rparr>) [0..<k]"
proof (induction k arbitrary: m s)
  case 0
  show ?case by simp
next
  case (Suc k)
  show ?case
    by (simp only: for_month.simps Suc.IH opportunity_step_simps map_upt_Suc)
       (simp add: comp_def)
qed

lemma opportunity_projections:
  "oa_monthlyProjections (calculateOpportunityAnalysis a mi r months) =
     map (\<lambda>j. \<lparr> mop_month = Suc j, mop_investmentContribution = mi,
                mop_investmentValue = Math_round (replay (r / 12) mi (Suc j) a),
                mop_netWorth = Math_round (replay (r / 12) mi (Suc j) a),
                mop_loanBalance = None, mop_loanPayment = None \<rparr>) [0..<nat months]"
  by (simp add: calculateOpportunityAnalysis_def Let_def opportunity_loop_projections)

text \<open>
  C10: for every \<open>months \<ge> 0\<close>, \<open>calculateOpportunityAnalysis\<close> returns exactly
  \<open>months\<close> projection points, numbered 1 to \<open>months\<close>; no threshold ends the loop
  early (the count does not depend on the amounts), the \<open>k\<close>-th point carries the
  rounded value of the recurrence after \<open>k\<close> steps, and each point's \<open>netWorth\<close>
  equals its (rounded) \<open>investmentValue\<close>.
\<close>

theorem opportunity_points:
  assumes "0 \<le> months"
  shows "int (length (oa_monthlyProjections (calculateOpportunityAnalysis a mi r months))) = months
    \<and> map mop_month (oa_monthlyProjections (calculateOpportunityAnalysis a mi r months))
        = [1..<Suc (nat months)]
    \<and> (\<forall>p \<in> set (oa_monthlyProjections (calculateOpportunityAnalysis a mi r months)).
          mop_netWorth p = mop_investmentValue p)
    \<and> (\<forall>k < nat months.
          mop_investmentValue (oa_monthlyProjections (calculateOpportunityAnalysis a mi r months) ! k)
            = Math_round (replay (r / 12) mi (Suc k) a))"
proof -
  have "map Suc [0..<nat months] = [1..<Suc (nat months)]"
    by (simp add: map_Suc_upt)
  then show ?thesis
    using assms by (auto simp: opportunity_projections comp_def)
qed

theorem opportunity_points_witness:
  "length (oa_monthlyProjections (calculateOpportunityAnalysis 1000 100 0.06 3)) = 3
   \<and> map mop_month (oa_monthlyProjections (calculateOpportunityAnalysis 1000 100 0.06 3))
       = [1, 2, 3]"
  using opportunity_points [of 3 1000 100 "0.06"]
  by (simp add: upt_rec)

subsection \<open>Final assets and total cost of the two scenarios\<close>

lemma opportunity_finalValue:
  "oa_finalValue (calculateOpportunityAnalysis a mi r months) =
     real_of_int (Math_round (replay (r / 12) mi (nat months) a))"
  by (simp add: calculateOpportunityAnalysis_def Let_def opportunity_loop_value)

lemma lump_finalAssets_eq:
  "lump_finalAssets (calculateLumpSumScenario productPrice currentSavings investmentReturn
      projectedYears monthlyInvestment) =
   real_of_int (Math_round (replay (investmentReturn / 12) monthlyInvestment
      (nat (Math_round (projectedYears * 12))) (max 0 (currentSavings - productPrice))))"
  by (simp add: calculateLumpSumScenario_def Let_def opportunity_finalValue)

lemma loan_finalAssets_eq:
  "loan_finalAssets (calculateLoanScenario productPrice currentSavings downPaymentPercentage
      loanInterestRate loanTermMonths investmentReturn projectedYears
      additionalMonthlyInvestment) =
   real_of_int (Math_round (replay (investmentReturn / 12)
      (max 0 (additionalMonthlyInvestment
         - calculateMonthlyLoanPayment (productPrice - productPrice * (downPaymentPercentage / 100))
             loanInterestRate loanTermMonths))
      (nat (Math_round (projectedYears * 12)))
      (max 0 (currentSavings - productPrice * (downPaymentPercentage / 100)))))"
  by (simp add: calculateLoanScenario_def Let_def opportunity_finalValue)

lemma loan_totalCost_eq:
  "loan_totalCost (calculateLoanScenario productPrice currentSavings downPaymentPercentage
      loanInterestRate loanTermMonths investmentReturn projectedYears
      additionalMonthlyInvestment) =
   real_of_int (Math_round (productPrice
      + (calculateMonthlyLoanPayment (productPrice - productPrice * (downPaymentPercentage / 100))
           loanInterestRate loanTermMonths * real loanTermMonths
         - (productPrice - productPrice * (downPaymentPercentage / 100)))))"
  by (simp add: calculateLoanScenario_def Let_def)


lemma Math_round_of_int [simp]: "Math_round (real_of_int k) = k"
  by (simp add: Math_round_def)

subsection \<open>The recommendation rule\<close>

text \<open>
  C3: with \<open>d = lumpSumScenario.finalAssets - (loanScenario.finalAssets -
  (loanScenario.totalCost - productPrice))\<close>, computed from the two scenarios that
  \<open>calculatePurchaseSimulation\<close> returns, the recommendation is \<open>lump_sum\<close> exactly when
  \<open>d > 0\<close> and \<open>loan\<close> exactly when \<open>d \<le> 0\<close> (a tie goes to the loan), and
  \<open>totalDifference\<close> is \<open>\<bar>d\<bar>\<close> rounded to the nearest unit.
\<close>

theorem purchase_recommendation:
  "let sim = calculatePurchaseSimulation goalId productName productPrice currentSavings
               loanTerms investmentReturn projectedYears monthlyInvestmentCapacity;
       lumpSumScenario = ps_lumpSumScenario sim;
       loanScenario = ps_loanScenario sim;
       d = lump_finalAssets lumpSumScenario
             - (loan_finalAssets loanScenario - (loan_totalCost loanScenario - productPrice))
   in lumpSumScenario = calculateLumpSumScenario productPrice currentSavings investmentReturn
         projectedYears monthlyInvestmentCapacity
    \<and> loanScenario = calculateLoanScenario productPrice currentSavings
         (lt_downPaymentPercentage loanTerms) (lt_interestRate loanTerms)
         (lt_termMonths loanTerms) investmentReturn projectedYears monthlyInvestmentCapacity
    \<and> (ps_recommendation sim = lump_sum \<longleftrightarrow> d > 0)
    \<and> (ps_recommendation sim = loan \<longleftrightarrow> d \<le> 0)
    \<and> ps_totalDifference sim = real_of_int (Math_round \<bar>d\<bar>)"
  by (simp add: calculatePurchaseSimulation_def Let_def)

theorem purchase_recommendation_witness:
  "ps_recommendation (calculatePurchaseSimulation ''g'' ''car'' 1000 2000
      \<lparr> lt_downPaymentPercentage = 20, lt_interestRate = 0, lt_termMonths = 4 \<rparr>
      0.12 0.25 300) = loan
   \<and> ps_totalDifference (calculatePurchaseSimulation ''g'' ''car'' 1000 2000
      \<lparr> lt_downPaymentPercentage = 20, lt_interestRate = 0, lt_termMonths = 4 \<rparr>
      0.12 0.25 300) = 219"
proof -
  define sim where "sim = calculatePurchaseSimulation ''g'' ''car'' 1000 2000
      \<lparr> lt_downPaymentPercentage = 20, lt_interestRate = 0, lt_termMonths = 4 \<rparr>
      0.12 0.25 300"
  have t: "ps_lumpSumScenario sim = calculateLumpSumScenario 1000 2000 0.12 0.25 300"
      "ps_loanScenario sim = calculateLoanScenario 1000 2000 20 0 4 0.12 0.25 300"
      "ps_recommendation sim = loan \<longleftrightarrow>
         lump_finalAssets (ps_lumpSumScenario sim)
           - (loan_finalAssets (ps_loanScenario sim)
                - (loan_totalCost (ps_loanScenario sim) - 1000)) \<le> 0"
      "ps_totalDifference sim =
         real_of_int (Math_round \<bar>lump_finalAssets (ps_lumpSumScenario sim)
           - (loan_finalAssets (ps_loanScenario sim)
                - (loan_totalCost (ps_loanScenario sim) - 1000))\<bar>)"
    using purchase_recommendation [of "''g''" "''car''" 1000 2000
      "\<lparr> lt_downPaymentPercentage = 20, lt_interestRate = 0, lt_termMonths = 4 \<rparr>"
      "0.12" "0.25" 300]
    unfolding sim_def Let_def by simp_all
  have three: "nat (Math_round (0.25 * 12)) = Suc (Suc (Suc 0))"
    by (simp add: Math_round_def)
  have l: "lump_finalAssets (ps_lumpSumScenario sim) = 1939"
    unfolding t lump_finalAssets_eq three by (simp add: Math_round_def)
  have f: "loan_finalAssets (ps_loanScenario sim) = 2158"
    unfolding t loan_finalAssets_eq three
    by (simp add: Math_round_def calculateMonthlyLoanPayment_def)
  have c: "loan_totalCost (ps_loanScenario sim) = 1000"
    unfolding t loan_totalCost_eq
    by (simp add: Math_round_def calculateMonthlyLoanPayment_def)
  have "ps_recommendation sim = loan \<and> ps_totalDifference sim = 219"
    using t(3,4) unfolding l f c by (simp add: Math_round_def)
  then show ?thesis unfolding sim_def .
qed

subsection \<open>The financed scenario never costs less than the cash price\<close>







subsection \<open>The special values on the path of the sweep\<close>

lemma js_NaN_right [simp]:
  "js_add x NaN = NaN" "js_mul x NaN = NaN" "js_div x NaN = NaN"
  by (cases x; simp)+










subsection \<open>The optimisation sweep\<close>






subsection \<open>The sweep at a loan term of 0 months\<close>





text \<open>
  The divisor \<^verbatim>\<open>factor - 1\<close> of a non-zero rate can vanish at a positive term too,
  when \<open>(1 + rate / 12) ^ months = 1\<close>: at a rate of \<open>-24\<close> over 2 months and a down
  payment of 100 percent the payment is \<^verbatim>\<open>0 / 0\<close> and the ROI is \<^verbatim>\<open>NaN\<close> again.
\<close>

lemma sweep_divisor_zero_at_positive_term:
  "opt_maxROI (findOptimalDownPaymentForROI 1000 1000 (- 24) 2 0.06 0.25 100 100 100)
     = NegInfinity"
  "map re_roi (filter re_feasible (opt_roiAnalysis
      (findOptimalDownPaymentForROI 1000 1000 (- 24) 2 0.06 0.25 100 100 100))) = [NaN]"
proof -
  have "jloan_totalCost (calculateLoanScenario_js 1000 1000 100 (- 24) 2 0.06 0.25 100) = NaN"
    by (simp add: calculateLoanScenario_js_def calculateMonthlyLoanPayment_js_def Let_def
          js_sub_def)
  then have roi: "fst (calculateROIForDownPayment 1000 1000 100 (- 24) 2 0.06 0.25 100) = NaN"
    by (simp add: calculateROIForDownPayment_def Let_def calculateROI_js_def js_sub_def)
  have loop: "findOptimalDownPaymentForROI 1000 1000 (- 24) 2 0.06 0.25 100 100 100 =
      sweep_step 1000 1000 (- 24) 2 0.06 0.25 100 100
        \<lparr> opt_optimalDownPayment = 100, opt_maxROI = NegInfinity, opt_roiAnalysis = [] \<rparr>"
    unfolding findOptimalDownPaymentForROI_def
    by (subst for_dp.simps, simp, subst for_dp.simps, simp)
  show "opt_maxROI (findOptimalDownPaymentForROI 1000 1000 (- 24) 2 0.06 0.25 100 100 100)
     = NegInfinity"
    unfolding loop using roi by (simp add: sweep_step_def Let_def case_prod_beta)
  show "map re_roi (filter re_feasible (opt_roiAnalysis
      (findOptimalDownPaymentForROI 1000 1000 (- 24) 2 0.06 0.25 100 100 100))) = [NaN]"
    unfolding loop using roi by (simp add: sweep_step_def Let_def case_prod_beta)
qed



section \<open>Properties of investmentCalculations.ts\<close>

subsection \<open>The recurrence\<close>

lemma replay_Suc_end:
  "replay r mi (Suc n) v = replay r mi n v * (1 + r) + mi"
  by (induction n arbitrary: v) simp_all

lemma replay_closed_form:
  assumes "r \<noteq> 0"
  shows "replay r mi n v = v * (1 + r) ^ n + mi * ((1 + r) ^ n - 1) / r"
proof (induction n)
  case 0
  show ?case by simp
next
  case (Suc n)
  show ?case
    unfolding replay_Suc_end Suc.IH using assms by (simp add: field_simps)
qed

lemma replay_nonneg:
  assumes "0 \<le> r" and "0 \<le> mi" and "0 \<le> v"
  shows "0 \<le> replay r mi n v"
  using assms by (induction n arbitrary: v) simp_all

lemma replay_increasing:
  assumes "0 \<le> r" and "0 \<le> mi" and "0 \<le> v"
  shows "replay r mi n v \<le> replay r mi (Suc n) v"
proof -
  have "0 \<le> replay r mi n v * r"
    using replay_nonneg [OF assms] assms(1) by simp
  then show ?thesis
    unfolding replay_Suc_end using assms(2) by (simp add: algebra_simps)
qed

lemma replay_mono_steps:
  assumes "0 \<le> r" and "0 \<le> mi" and "0 \<le> v" and "i \<le> n"
  shows "replay r mi i v \<le> replay r mi n v"
  using assms(4)
proof (induction n)
  case 0
  then show ?case by simp
next
  case (Suc n)
  show ?case
  proof (cases "i = Suc n")
    case True
    then show ?thesis by simp
  next
    case False
    with Suc.prems have "i \<le> n" by simp
    then have "replay r mi i v \<le> replay r mi n v" by (rule Suc.IH)
    also have "\<dots> \<le> replay r mi (Suc n) v" by (rule replay_increasing [OF assms(1-3)])
    finally show ?thesis .
  qed
qed

subsection \<open>The period solver without a contribution\<close>

text \<open>
  C1, as the specification states it, asks \<open>calculateInvestmentPeriod\<close> to return the
  ceiling 1200 when the goal is not yet met and nothing is contributed. The source has
  a guard of its own for that case, \<^verbatim>\<open>if (monthlyInvestment <= 0) return Infinity\<close>,
  and never enters the bounded loop.
\<close>

theorem period_no_contribution_counterexample:
  "(0::real) < 100 \<and> (0::real) \<le> 0 \<and> calculateInvestmentPeriod 0 100 0 0.05 \<noteq> 1200"
  by (simp add: calculateInvestmentPeriod_def)

text \<open>
  C1 (amended): for every input with \<open>currentAmount < targetAmount\<close> and
  \<open>monthlyInvestment \<le> 0\<close>, \<open>calculateInvestmentPeriod\<close> returns \<^verbatim>\<open>Infinity\<close>, the
  unbounded marker, which differs from every finite number of months (1200 included).
\<close>

theorem period_no_contribution:
  assumes "currentAmount < targetAmount" and "monthlyInvestment \<le> 0"
  shows "calculateInvestmentPeriod currentAmount targetAmount monthlyInvestment annualReturn
           = \<infinity>
    \<and> calculateInvestmentPeriod currentAmount targetAmount monthlyInvestment annualReturn
           \<noteq> enat n"
  using assms by (simp add: calculateInvestmentPeriod_def)

theorem period_no_contribution_witness:
  "calculateInvestmentPeriod 0 100 0 0.05 = \<infinity>"
  using period_no_contribution [of 0 100 0 "0.05" 0] by simp

subsection \<open>What each scenario band reports\<close>

lemma scenario_final_report:
  "(1200 \<le> sc_projectedMonths b \<longrightarrow>
       sc_totalValue (scenario_final c T m b) = T \<and> sc_totalReturns (scenario_final c T m b) = 0)
   \<and> (sc_projectedMonths b < 1200 \<longrightarrow>
       sc_totalValue (scenario_final c T m b) =
         real_of_int (Math_round
           (replay (sc_annualReturn b / 12) m (the_enat (sc_projectedMonths b)) c))
       \<and> sc_totalReturns (scenario_final c T m b) =
         real_of_int (Math_round
           (replay (sc_annualReturn b / 12) m (the_enat (sc_projectedMonths b)) c
              - c - m * real (the_enat (sc_projectedMonths b)))))
   \<and> sc_projectedMonths (scenario_final c T m b) = sc_projectedMonths b
   \<and> sc_annualReturn (scenario_final c T m b) = sc_annualReturn b"
  by (auto simp: scenario_final_def Let_def)

lemma scenarios_expected:
  "scs_expected (calculateInvestmentScenarios c T m e) =
     scenario_final c T m
       \<lparr> sc_annualReturn = e, sc_projectedMonths = calculateInvestmentPeriod c T m e,
         sc_totalValue = 0, sc_totalReturns = 0 \<rparr>"
  by (simp add: calculateInvestmentScenarios_def Let_def)

lemma period_example_small: "calculateInvestmentPeriod 0.5 100 50 0.05 = 2"
  by (simp add: calculateInvestmentPeriod_def period_loop.simps numeral_eq_enat
        numeral_2_eq_2)

lemma replay_2: "replay r m 2 v = (v * (1 + r) + m) * (1 + r) + m"
  by (simp add: numeral_2_eq_2)

lemma scenario_example_small:
  "sc_projectedMonths (scs_expected (calculateInvestmentScenarios 0.5 100 50 0.05)) = 2"
  "sc_totalValue (scs_expected (calculateInvestmentScenarios 0.5 100 50 0.05)) = 101"
  "sc_totalReturns (scs_expected (calculateInvestmentScenarios 0.5 100 50 0.05)) = 0"
  unfolding scenarios_expected period_example_small
  by (simp_all add: scenario_final_def Let_def replay_2 Math_round_def numeral_eq_enat)

lemma scenario_example_never:
  "sc_projectedMonths (scs_expected (calculateInvestmentScenarios 0 100 0 0.05)) = \<infinity>"
  unfolding scenarios_expected
  by (simp add: scenario_final_def calculateInvestmentPeriod_def)

text \<open>
  C9, as the specification states it, gives \<open>totalReturns\<close> of a band solved below the
  ceiling as the reported (rounded) \<open>totalValue\<close> minus the amounts paid in. The source
  rounds the difference taken on the unrounded value, which is another number when the
  amounts are not whole: with 0.5 in hand and 50 a month towards 100, the expected band
  reports \<open>totalValue = 101\<close> and \<open>totalReturns = 0\<close>, not \<open>101 - 0.5 - 100\<close>.
\<close>

theorem scenario_returns_counterexample:
  "sc_projectedMonths (scs_expected (calculateInvestmentScenarios 0.5 100 50 0.05)) < 1200
   \<and> sc_totalReturns (scs_expected (calculateInvestmentScenarios 0.5 100 50 0.05)) \<noteq>
       sc_totalValue (scs_expected (calculateInvestmentScenarios 0.5 100 50 0.05))
         - 0.5 - 50 * 2"
  unfolding scenario_example_small by simp

text \<open>
  C9 (amended): each of the three bands holds the period count solved at its own
  return. A band whose count reaches the ceiling 1200 (\<^verbatim>\<open>Infinity\<close> included) reports
  \<open>totalValue = targetAmount\<close> and \<open>totalReturns = 0\<close>. A band solved strictly below the
  ceiling reports \<open>totalValue = Math.round(v)\<close> and
  \<open>totalReturns = Math.round(v - currentAmount - monthlyInvestment * projectedMonths)\<close>,
  where \<open>v\<close> is the unrounded value of the recurrence replayed for \<open>projectedMonths\<close>
  steps.
\<close>

theorem scenario_band_reports:
  "\<forall>b \<in> set [scs_conservative (calculateInvestmentScenarios c T m e),
               scs_expected (calculateInvestmentScenarios c T m e),
               scs_optimistic (calculateInvestmentScenarios c T m e)].
     sc_projectedMonths b = calculateInvestmentPeriod c T m (sc_annualReturn b)
     \<and> (1200 \<le> sc_projectedMonths b \<longrightarrow> sc_totalValue b = T \<and> sc_totalReturns b = 0)
     \<and> (sc_projectedMonths b < 1200 \<longrightarrow>
          sc_totalValue b =
            real_of_int (Math_round
              (replay (sc_annualReturn b / 12) m (the_enat (sc_projectedMonths b)) c))
          \<and> sc_totalReturns b =
            real_of_int (Math_round
              (replay (sc_annualReturn b / 12) m (the_enat (sc_projectedMonths b)) c
                 - c - m * real (the_enat (sc_projectedMonths b)))))"
  by (simp add: calculateInvestmentScenarios_def Let_def scenario_final_report)

theorem scenario_band_reports_witness:
  "sc_totalValue (scs_expected (calculateInvestmentScenarios 0 100 0 0.05)) = 100
   \<and> sc_totalReturns (scs_expected (calculateInvestmentScenarios 0 100 0 0.05)) = 0
   \<and> sc_totalReturns (scs_expected (calculateInvestmentScenarios 0.5 100 50 0.05)) =
       real_of_int (Math_round
         (replay (sc_annualReturn (scs_expected (calculateInvestmentScenarios 0.5 100 50 0.05)) / 12)
            50 2 0.5 - 0.5 - 50 * 2))"
  using scenario_band_reports [of 0 100 0 "0.05"] scenario_band_reports [of "0.5" 100 50 "0.05"]
    scenario_example_never scenario_example_small(1)
  by (simp add: numeral_eq_enat)

subsection \<open>The goal trajectory\<close>

lemma period_loop_first_reach:
  assumes "\<forall>i<j. replay r mi i v < T" and "T \<le> replay r mi j v" and "k + j \<le> 1200"
  shows "period_loop T r mi k v = k + j"
  using assms
proof (induction j arbitrary: k v)
  case 0
  then show ?case by (subst period_loop.simps) simp
next
  case (Suc j)
  from Suc.prems(1) have v: "v < T" by force
  from Suc.prems(3) have k: "k < 1200" by simp
  have "period_loop T r mi (Suc k) (v * (1 + r) + mi) = Suc k + j"
  proof (rule Suc.IH)
    show "\<forall>i<j. replay r mi i (v * (1 + r) + mi) < T"
      using Suc.prems(1) by (metis Suc_less_eq replay.simps(2))
    show "T \<le> replay r mi j (v * (1 + r) + mi)"
      using Suc.prems(2) by simp
    show "Suc k + j \<le> 1200"
      using Suc.prems(3) by simp
  qed
  then show ?case
    using v k by (subst period_loop.simps) simp
qed

lemma replay_example_73: "replay (0.05 / 12) 50000 73 500000 < 5000000" (is ?a)
  and replay_example_74: "5000000 \<le> replay (0.05 / 12) 50000 74 500000" (is ?b)
  and round_example_73: "Math_round (replay (0.05 / 12) 50000 73 500000) = 4932983" (is ?c)
  and round_example_74: "Math_round (replay (0.05 / 12) 50000 74 500000) = 5003537" (is ?d)
proof -
  have r: "(0.05 / 12 :: real) \<noteq> 0" by simp
  show ?a ?b ?c ?d
    unfolding replay_closed_form [OF r] Math_round_def by (simp_all add: power_divide)
qed

lemma period_example: "calculateInvestmentPeriod 500000 5000000 50000 0.05 = 74"
proof -
  have "\<forall>i<74. replay (0.05 / 12) 50000 i 500000 < 5000000"
  proof (intro allI impI)
    fix i :: nat assume "i < 74"
    then have "replay (0.05 / 12) 50000 i 500000 \<le> replay (0.05 / 12) 50000 73 500000"
      by (intro replay_mono_steps) simp_all
    with replay_example_73 show "replay (0.05 / 12) 50000 i 500000 < 5000000" by simp
  qed
  then have "period_loop 5000000 (0.05 / 12) 50000 0 500000 = 0 + 74"
    using replay_example_74 by (intro period_loop_first_reach) simp_all
  then show ?thesis
    by (simp add: calculateInvestmentPeriod_def numeral_eq_enat)
qed

lemma trajectory_step_simps:
  "ts_totalValue (trajectory_step T mi r m s) = ts_totalValue s * (1 + r) + mi"
  "map mip_month (ts_projections (trajectory_step T mi r m s)) =
     map mip_month (ts_projections s) @ [m]"
  "map mip_totalValue (ts_projections (trajectory_step T mi r m s)) =
     map mip_totalValue (ts_projections s)
       @ [real_of_int (Math_round (ts_totalValue s * (1 + r) + mi))]"
  by (simp_all add: trajectory_step_def Let_def)

lemma trajectory_loop_char:
  "\<exists>j \<le> Suc limit - m.
     ts_totalValue (trajectory_loop T mi r limit m s) = replay r mi j (ts_totalValue s)
   \<and> map mip_month (ts_projections (trajectory_loop T mi r limit m s)) =
       map mip_month (ts_projections s) @ [m..<m + j]
   \<and> map mip_totalValue (ts_projections (trajectory_loop T mi r limit m s)) =
       map mip_totalValue (ts_projections s)
         @ map (\<lambda>k. real_of_int (Math_round (replay r mi (Suc k) (ts_totalValue s)))) [0..<j]
   \<and> (\<forall>k. Suc k < j \<longrightarrow> replay r mi (Suc k) (ts_totalValue s) < T)
   \<and> (j < Suc limit - m \<longrightarrow> 0 < j \<and> T \<le> replay r mi j (ts_totalValue s))"
proof (induction T mi r limit m s rule: trajectory_loop.induct)
  case (1 T mi r limit m s)
  define s' where "s' = trajectory_step T mi r m s"
  define v where "v = ts_totalValue s"
  have v': "ts_totalValue s' = v * (1 + r) + mi"
    by (simp add: s'_def v_def trajectory_step_simps)
  show ?case
  proof (cases "m \<le> limit")
    case False
    then have "trajectory_loop T mi r limit m s = s"
      by (subst trajectory_loop.simps) simp
    then show ?thesis
      using False by (intro exI [of _ 0]) simp
  next
    case True
    show ?thesis
    proof (cases "T \<le> ts_totalValue s'")
      case reached: True
      have L: "trajectory_loop T mi r limit m s = s'"
        using True reached by (subst trajectory_loop.simps) (simp add: s'_def Let_def)
      show ?thesis
        unfolding L
        using True reached
        by (intro exI [of _ 1]) (simp add: s'_def trajectory_step_simps)
    next
      case below: False
      have L: "trajectory_loop T mi r limit m s = trajectory_loop T mi r limit (Suc m) s'"
        using True below by (subst trajectory_loop.simps) (simp add: s'_def Let_def)
      from "1.IH" [OF True s'_def below]
      obtain j where j: "j \<le> Suc limit - Suc m"
        and tv: "ts_totalValue (trajectory_loop T mi r limit (Suc m) s') =
                   replay r mi j (ts_totalValue s')"
        and months: "map mip_month (ts_projections (trajectory_loop T mi r limit (Suc m) s')) =
                   map mip_month (ts_projections s') @ [Suc m..<Suc m + j]"
        and vals: "map mip_totalValue (ts_projections (trajectory_loop T mi r limit (Suc m) s')) =
                   map mip_totalValue (ts_projections s')
                     @ map (\<lambda>k. real_of_int (Math_round (replay r mi (Suc k) (ts_totalValue s'))))
                         [0..<j]"
        and before: "\<forall>k. Suc k < j \<longrightarrow> replay r mi (Suc k) (ts_totalValue s') < T"
        and early: "j < Suc limit - Suc m \<longrightarrow> 0 < j \<and> T \<le> replay r mi j (ts_totalValue s')"
        by blast
      have step: "\<And>n. replay r mi n (ts_totalValue s') = replay r mi (Suc n) v"
        by (simp add: v')
      have a: "Suc j \<le> Suc limit - m"
        using j True by simp
      have b: "ts_totalValue (trajectory_loop T mi r limit m s) = replay r mi (Suc j) v"
        unfolding L tv step ..
      have c: "map mip_month (ts_projections (trajectory_loop T mi r limit m s)) =
                 map mip_month (ts_projections s) @ [m..<m + Suc j]"
        unfolding L months by (simp add: s'_def trajectory_step_simps upt_conv_Cons)
      have d: "map mip_totalValue (ts_projections (trajectory_loop T mi r limit m s)) =
                 map mip_totalValue (ts_projections s)
                   @ map (\<lambda>k. real_of_int (Math_round (replay r mi (Suc k) v))) [0..<Suc j]"
        unfolding L vals step
        by (simp add: s'_def trajectory_step_simps v_def map_upt_Suc del: upt_Suc replay.simps)
           (simp add: v_def)
      have e: "\<forall>k. Suc k < Suc j \<longrightarrow> replay r mi (Suc k) v < T"
      proof (intro allI impI)
        fix k assume k: "Suc k < Suc j"
        show "replay r mi (Suc k) v < T"
        proof (cases k)
          case 0
          with below v' show ?thesis by simp
        next
          case (Suc k')
          with k before have "replay r mi (Suc k') (ts_totalValue s') < T" by simp
          then show ?thesis unfolding step Suc .
        qed
      qed
      have f: "Suc j < Suc limit - m \<longrightarrow> 0 < Suc j \<and> T \<le> replay r mi (Suc j) v"
        using early unfolding step by auto
      show ?thesis
        using a b c d e f unfolding v_def by (intro exI [of _ "Suc j"]) blast
    qed
  qed
qed

lemma the_enat_min_600: "the_enat (min pm 600) \<le> 600" "enat (the_enat (min pm 600)) = min pm 600"
  by (cases pm; simp add: min_def numeral_eq_enat)+

lemma simulation_fields:
  "sim_projectedMonths (calculateInvestmentSimulation goalId c T mi r) =
     calculateInvestmentPeriod c T mi r"
  "sim_monthlyProjections (calculateInvestmentSimulation goalId c T mi r) =
     ts_projections (trajectory_loop T mi (r / 12)
       (the_enat (min (calculateInvestmentPeriod c T mi r) 600)) 1
       \<lparr> ts_cumulativeInvestment = 0, ts_cumulativeReturns = 0, ts_totalValue = c,
         ts_projections = [] \<rparr>)"
  by (simp_all add: calculateInvestmentSimulation_def Let_def)

lemma simulation_trajectory:
  fixes goalId c T mi r
  defines "sim \<equiv> calculateInvestmentSimulation goalId c T mi r"
  defines "ps \<equiv> sim_monthlyProjections sim"
  shows "length ps \<le> 600"
    and "enat (length ps) \<le> sim_projectedMonths sim"
    and "map mip_month ps = [1..<Suc (length ps)]"
    and "\<forall>k < length ps. mip_totalValue (ps ! k)
           = real_of_int (Math_round (replay (r / 12) mi (Suc k) c))"
    and "\<forall>k. Suc k < length ps \<longrightarrow> replay (r / 12) mi (Suc k) c < T"
    and "enat (length ps) < min (sim_projectedMonths sim) 600 \<longrightarrow>
           ps \<noteq> [] \<and> T \<le> replay (r / 12) mi (length ps) c"
proof -
  define limit where "limit = the_enat (min (calculateInvestmentPeriod c T mi r) 600)"
  define s0 where "s0 = \<lparr> ts_cumulativeInvestment = 0, ts_cumulativeReturns = 0,
    ts_totalValue = c, ts_projections = ([] :: MonthlyInvestmentProjection list) \<rparr>"
  have ps: "ps = ts_projections (trajectory_loop T mi (r / 12) limit 1 s0)"
    by (simp add: ps_def sim_def simulation_fields limit_def s0_def)
  have pm: "sim_projectedMonths sim = calculateInvestmentPeriod c T mi r"
    by (simp add: sim_def simulation_fields)
  obtain j where j: "j \<le> Suc limit - 1"
    and months: "map mip_month ps = map mip_month (ts_projections s0) @ [1..<1 + j]"
    and vals: "map mip_totalValue ps = map mip_totalValue (ts_projections s0)
                 @ map (\<lambda>k. real_of_int (Math_round (replay (r / 12) mi (Suc k) (ts_totalValue s0))))
                     [0..<j]"
    and before: "\<forall>k. Suc k < j \<longrightarrow> replay (r / 12) mi (Suc k) (ts_totalValue s0) < T"
    and early: "j < Suc limit - 1 \<longrightarrow> 0 < j \<and> T \<le> replay (r / 12) mi j (ts_totalValue s0)"
    using trajectory_loop_char [of limit 1 T mi "r / 12" s0] unfolding ps by blast
  have "length (map mip_month ps) = j"
    unfolding months by (simp add: s0_def)
  then have len: "length ps = j" by simp
  have lim: "limit \<le> 600" "enat limit = min (sim_projectedMonths sim) 600"
    unfolding limit_def pm by (rule the_enat_min_600)+
  show "length ps \<le> 600"
    using len j lim by simp
  have "enat (length ps) \<le> enat limit"
    using len j by simp
  then show "enat (length ps) \<le> sim_projectedMonths sim"
    unfolding lim by simp
  show "map mip_month ps = [1..<Suc (length ps)]"
    using months len by (simp add: s0_def)
  show "\<forall>k < length ps. mip_totalValue (ps ! k)
           = real_of_int (Math_round (replay (r / 12) mi (Suc k) c))"
  proof (intro allI impI)
    fix k assume k: "k < length ps"
    then have "mip_totalValue (ps ! k) = map mip_totalValue ps ! k" by simp
    also have "\<dots> = real_of_int (Math_round (replay (r / 12) mi (Suc k) c))"
      unfolding vals using k len by (simp add: s0_def del: replay.simps)
    finally show "mip_totalValue (ps ! k)
           = real_of_int (Math_round (replay (r / 12) mi (Suc k) c))" .
  qed
  show "\<forall>k. Suc k < length ps \<longrightarrow> replay (r / 12) mi (Suc k) c < T"
    using before len by (simp add: s0_def)
  show "enat (length ps) < min (sim_projectedMonths sim) 600 \<longrightarrow>
           ps \<noteq> [] \<and> T \<le> replay (r / 12) mi (length ps) c"
    using early len unfolding lim(2) [symmetric] by (auto simp: s0_def)
qed

lemma simulation_example:
  fixes ps goalId
  defines "ps \<equiv> sim_monthlyProjections
                   (calculateInvestmentSimulation goalId 500000 5000000 50000 0.05)"
  shows "length ps = 74"
proof -
  note t = simulation_trajectory [of goalId 500000 5000000 50000 "0.05", folded ps_def]
  have pm: "sim_projectedMonths (calculateInvestmentSimulation goalId 500000 5000000 50000 0.05)
              = 74"
    unfolding simulation_fields by (rule period_example)
  have le: "length ps \<le> 74"
    using t(2) unfolding pm by (simp add: numeral_eq_enat)
  have "\<not> length ps < 74"
  proof
    assume less: "length ps < 74"
    then have "enat (length ps) < min (sim_projectedMonths
        (calculateInvestmentSimulation goalId 500000 5000000 50000 0.05)) 600"
      unfolding pm by (simp add: numeral_eq_enat)
    with t(6) have "5000000 \<le> replay (0.05 / 12) 50000 (length ps) 500000" by simp
    moreover have "replay (0.05 / 12) 50000 (length ps) 500000
                     \<le> replay (0.05 / 12) 50000 73 500000"
      using less by (intro replay_mono_steps) simp_all
    ultimately show False using replay_example_73 by simp
  qed
  with le show ?thesis by simp
qed

text \<open>
  C8: the trajectory of \<open>calculateInvestmentSimulation\<close> never holds more than 600
  points (nor more than \<open>projectedMonths\<close>); its points are numbered from 1 and the
  \<open>k\<close>-th carries the rounded running total after \<open>k\<close> steps; the running total of
  every point but the last is below the target, so the series stops at the first month
  whose running total meets or exceeds the target; and a series shorter than
  \<open>min(projectedMonths, 600)\<close> ends on a month that met the target. For target
  5,000,000, current 500,000, 50,000 a month and a return of 0.05, \<open>projectedMonths\<close>
  is 74, the series has 74 points, \<open>totalValue\<close> at month 74 is at least the target
  and \<open>totalValue\<close> at month 73 is below it.
\<close>

theorem trajectory_stops_at_target:
  "(let sim = calculateInvestmentSimulation goalId c T mi r;
        ps = sim_monthlyProjections sim
    in length ps \<le> 600
     \<and> enat (length ps) \<le> sim_projectedMonths sim
     \<and> map mip_month ps = [1..<Suc (length ps)]
     \<and> (\<forall>k < length ps. mip_totalValue (ps ! k)
            = real_of_int (Math_round (replay (r / 12) mi (Suc k) c)))
     \<and> (\<forall>k. Suc k < length ps \<longrightarrow> replay (r / 12) mi (Suc k) c < T)
     \<and> (enat (length ps) < min (sim_projectedMonths sim) 600 \<longrightarrow>
            ps \<noteq> [] \<and> T \<le> replay (r / 12) mi (length ps) c))
   \<and> (let sim = calculateInvestmentSimulation goalId 500000 5000000 50000 0.05;
            ps = sim_monthlyProjections sim
        in sim_projectedMonths sim = 74
         \<and> length ps = 74
         \<and> mip_month (ps ! 73) = 74
         \<and> 5000000 \<le> mip_totalValue (ps ! 73)
         \<and> mip_totalValue (ps ! 72) < 5000000)"
proof -
  define ps where "ps = sim_monthlyProjections
                          (calculateInvestmentSimulation goalId 500000 5000000 50000 0.05)"
  note t = simulation_trajectory [of goalId 500000 5000000 50000 "0.05", folded ps_def]
  have len: "length ps = 74"
    unfolding ps_def by (rule simulation_example)
  have pm: "sim_projectedMonths (calculateInvestmentSimulation goalId 500000 5000000 50000 0.05)
              = 74"
    unfolding simulation_fields by (rule period_example)
  have "map mip_month ps ! 73 = 74"
    unfolding t(3) len by (simp del: upt_Suc)
  then have m: "mip_month (ps ! 73) = 74"
    using len by simp
  have n: "73 < length ps" "72 < length ps"
    using len by simp_all
  have "mip_totalValue (ps ! 73) = real_of_int (Math_round (replay (0.05 / 12) 50000 (Suc 73) 500000))"
    using t(4) n(1) by blast
  also have "Suc 73 = 74" by simp
  finally have a: "mip_totalValue (ps ! 73) = 5003537"
    unfolding round_example_74 by simp
  have "mip_totalValue (ps ! 72) = real_of_int (Math_round (replay (0.05 / 12) 50000 (Suc 72) 500000))"
    using t(4) n(2) by blast
  also have "Suc 72 = 73" by simp
  finally have b: "mip_totalValue (ps ! 72) = 4932983"
    unfolding round_example_73 by simp
  have concrete: "sim_projectedMonths
        (calculateInvestmentSimulation goalId 500000 5000000 50000 0.05) = 74
      \<and> length ps = 74 \<and> mip_month (ps ! 73) = 74
      \<and> 5000000 \<le> mip_totalValue (ps ! 73) \<and> mip_totalValue (ps ! 72) < 5000000"
    using pm len m a b by simp
  show ?thesis
    unfolding Let_def
    using simulation_trajectory [of goalId c T mi r] concrete [unfolded ps_def]
    by blast
qed

theorem trajectory_stops_at_target_witness:
  "replay (0.05 / 12) 50000 73 500000 < 5000000"
proof -
  note t = trajectory_stops_at_target [of "''goal''" 500000 5000000 50000 "0.05", unfolded Let_def]
  from t have len: "length (sim_monthlyProjections
      (calculateInvestmentSimulation ''goal'' 500000 5000000 50000 0.05)) = 74"
    by blast
  from t have "\<forall>k. Suc k < length (sim_monthlyProjections
      (calculateInvestmentSimulation ''goal'' 500000 5000000 50000 0.05)) \<longrightarrow>
      replay (0.05 / 12) 50000 (Suc k) 500000 < 5000000"
    by blast
  then have "Suc 72 < 74 \<longrightarrow> replay (0.05 / 12) 50000 (Suc 72) 500000 < 5000000"
    unfolding len by (rule spec)
  moreover have "Suc 72 = 73" "Suc 72 < 74" by simp_all
  ultimately show ?thesis by (simp only:)
qed

subsection \<open>The scenario bands\<close>

lemma period_loop_le_1200:
  "k \<le> 1200 \<Longrightarrow> period_loop T r mi k v \<le> 1200"
proof (induction T r mi k v rule: period_loop.induct)
  case (1 T r mi k v)
  show ?case
  proof (cases "v < T \<and> k < 1200")
    case True
    then have "period_loop T r mi k v = period_loop T r mi (Suc k) (v * (1 + r) + mi)"
      by (subst period_loop.simps) simp
    moreover have "period_loop T r mi (Suc k) (v * (1 + r) + mi) \<le> 1200"
      using True by (intro "1.IH") simp_all
    ultimately show ?thesis by simp
  next
    case False
    then have "period_loop T r mi k v = k"
      by (subst period_loop.simps) auto
    then show ?thesis using "1.prems" by simp
  qed
qed

lemma period_loop_ge:
  "k \<le> period_loop T r mi k v"
proof (induction T r mi k v rule: period_loop.induct)
  case (1 T r mi k v)
  show ?case
  proof (cases "v < T \<and> k < 1200")
    case True
    then have "period_loop T r mi k v = period_loop T r mi (Suc k) (v * (1 + r) + mi)"
      by (subst period_loop.simps) simp
    moreover have "Suc k \<le> period_loop T r mi (Suc k) (v * (1 + r) + mi)"
      using True by (intro "1.IH") simp_all
    ultimately show ?thesis by simp
  next
    case False
    then have "period_loop T r mi k v = k"
      by (subst period_loop.simps) auto
    then show ?thesis by simp
  qed
qed

lemma period_loop_reached:
  "period_loop T r mi k v < 1200 \<Longrightarrow>
     \<exists>j. period_loop T r mi k v = k + j \<and> T \<le> replay r mi j v"
proof (induction T r mi k v rule: period_loop.induct)
  case (1 T r mi k v)
  show ?case
  proof (cases "v < T \<and> k < 1200")
    case True
    then have eq: "period_loop T r mi k v = period_loop T r mi (Suc k) (v * (1 + r) + mi)"
      by (subst period_loop.simps) simp
    with "1.prems" have "period_loop T r mi (Suc k) (v * (1 + r) + mi) < 1200" by simp
    from "1.IH" [OF True this]
    obtain j where "period_loop T r mi (Suc k) (v * (1 + r) + mi) = Suc k + j"
      and "T \<le> replay r mi j (v * (1 + r) + mi)"
      by blast
    then have "period_loop T r mi k v = k + Suc j \<and> T \<le> replay r mi (Suc j) v"
      unfolding eq by simp
    then show ?thesis by blast
  next
    case False
    then have eq: "period_loop T r mi k v = k"
      by (subst period_loop.simps) auto
    with "1.prems" False have "T \<le> v" by simp
    with eq have "period_loop T r mi k v = k + 0 \<and> T \<le> replay r mi 0 v" by simp
    then show ?thesis by blast
  qed
qed

lemma period_loop_upper:
  "T \<le> replay r mi j v \<Longrightarrow> period_loop T r mi k v \<le> k + j"
proof (induction j arbitrary: k v)
  case 0
  then show ?case by (subst period_loop.simps) simp
next
  case (Suc j)
  show ?case
  proof (cases "v < T \<and> k < 1200")
    case True
    have "period_loop T r mi (Suc k) (v * (1 + r) + mi) \<le> Suc k + j"
      using Suc.prems by (intro Suc.IH) simp
    then show ?thesis
      using True by (subst period_loop.simps) simp
  next
    case False
    then show ?thesis by (subst period_loop.simps) auto
  qed
qed

lemma replay_mono_rate:
  assumes "0 \<le> r1" and "r1 \<le> r2" and "0 \<le> mi"
  shows "0 \<le> v1 \<Longrightarrow> v1 \<le> v2 \<Longrightarrow> replay r1 mi n v1 \<le> replay r2 mi n v2"
proof (induction n arbitrary: v1 v2)
  case 0
  then show ?case by simp
next
  case (Suc n)
  have "v1 * (1 + r1) \<le> v2 * (1 + r2)"
    using Suc.prems assms by (intro mult_mono) simp_all
  moreover have "0 \<le> v1 * (1 + r1)"
    using Suc.prems assms by simp
  ultimately show ?case
    using assms(3) by (simp add: Suc.IH)
qed

lemma period_loop_antitone:
  assumes "0 \<le> r1" and "r1 \<le> r2" and "0 \<le> mi" and "0 \<le> c"
  shows "period_loop T r2 mi 0 c \<le> period_loop T r1 mi 0 c"
proof (cases "period_loop T r1 mi 0 c < 1200")
  case True
  from period_loop_reached [OF True]
  obtain j where j: "period_loop T r1 mi 0 c = j" "T \<le> replay r1 mi j c"
    by auto
  have "replay r1 mi j c \<le> replay r2 mi j c"
    using assms by (intro replay_mono_rate) simp_all
  with j(2) have "T \<le> replay r2 mi j c" by simp
  from period_loop_upper [OF this, of 0] show ?thesis
    unfolding j(1) by simp
next
  case False
  moreover have "period_loop T r1 mi 0 c \<le> 1200" "period_loop T r2 mi 0 c \<le> 1200"
    by (rule period_loop_le_1200, simp)+
  ultimately show ?thesis by simp
qed

lemma period_antitone:
  assumes "0 < a1" and "a1 \<le> a2" and "0 \<le> c"
  shows "calculateInvestmentPeriod c T mi a2 \<le> calculateInvestmentPeriod c T mi a1"
proof (cases "T \<le> c \<or> mi \<le> 0")
  case True
  then show ?thesis by (auto simp: calculateInvestmentPeriod_def)
next
  case False
  then have "period_loop T (a2 / 12) mi 0 c \<le> period_loop T (a1 / 12) mi 0 c"
    using assms by (intro period_loop_antitone) simp_all
  then show ?thesis
    using False assms by (simp add: calculateInvestmentPeriod_def Let_def)
qed

lemma scenario_fields:
  "sc_annualReturn (scs_conservative (calculateInvestmentScenarios c T mi e)) = max 0.01 (e - 0.15)"
  "sc_annualReturn (scs_expected (calculateInvestmentScenarios c T mi e)) = e"
  "sc_annualReturn (scs_optimistic (calculateInvestmentScenarios c T mi e)) = e + 0.15"
  "sc_projectedMonths (scs_conservative (calculateInvestmentScenarios c T mi e)) =
     calculateInvestmentPeriod c T mi (max 0.01 (e - 0.15))"
  "sc_projectedMonths (scs_expected (calculateInvestmentScenarios c T mi e)) =
     calculateInvestmentPeriod c T mi e"
  "sc_projectedMonths (scs_optimistic (calculateInvestmentScenarios c T mi e)) =
     calculateInvestmentPeriod c T mi (e + 0.15)"
  by (simp_all add: calculateInvestmentScenarios_def Let_def scenario_final_def)

text \<open>
  C2, as the specification states it, orders the three bands for every expected return.
  The conservative return has a floor, \<open>max(0.01, expectedReturn - 0.15)\<close>, so below an
  expected return of 0.01 the conservative band lies above the expected one; and a
  return of exactly 0 is solved by the uncapped division
  \<open>ceil(remaining / monthlyInvestment)\<close>, while the other bands are capped at 1200.
  With nothing in hand, 1 a month towards 2000 and an expected return of 0, the
  conservative band has the return 0.01 and at most 1200 months, the expected band the
  return 0 and 2000 months.
\<close>

theorem scenario_bands_counterexample:
  "\<not> sc_annualReturn (scs_conservative (calculateInvestmentScenarios 0 2000 1 0))
       \<le> sc_annualReturn (scs_expected (calculateInvestmentScenarios 0 2000 1 0))
   \<and> \<not> sc_projectedMonths (scs_conservative (calculateInvestmentScenarios 0 2000 1 0))
       \<ge> sc_projectedMonths (scs_expected (calculateInvestmentScenarios 0 2000 1 0))"
proof -
  have "period_loop 2000 (max 0.01 (0 - 0.15) / 12) 1 0 0 \<le> 1200"
    by (rule period_loop_le_1200) simp
  then have "sc_projectedMonths (scs_conservative (calculateInvestmentScenarios 0 2000 1 0))
               \<le> 1200"
    unfolding scenario_fields by (simp add: calculateInvestmentPeriod_def numeral_eq_enat)
  moreover have "sc_projectedMonths (scs_expected (calculateInvestmentScenarios 0 2000 1 0)) = 2000"
    unfolding scenario_fields
    by (simp add: calculateInvestmentPeriod_def Math_ceil_def numeral_eq_enat)
  ultimately have "\<not> sc_projectedMonths (scs_conservative (calculateInvestmentScenarios 0 2000 1 0))
       \<ge> sc_projectedMonths (scs_expected (calculateInvestmentScenarios 0 2000 1 0))"
    using order_trans [of "2000 :: enat"
        "sc_projectedMonths (scs_conservative (calculateInvestmentScenarios 0 2000 1 0))" 1200]
    by (auto simp: numeral_eq_enat)
  moreover have "\<not> sc_annualReturn (scs_conservative (calculateInvestmentScenarios 0 2000 1 0))
       \<le> sc_annualReturn (scs_expected (calculateInvestmentScenarios 0 2000 1 0))"
    unfolding scenario_fields by simp
  ultimately show ?thesis by blast
qed

text \<open>
  The order of the months also needs a non-negative starting amount: a debt grows
  faster at a higher return. Owing 10 and paying in 11.1 a month towards 1 at an expected
  return of 0.16, the conservative band (0.01) is done after one month and the expected
  band is not.
\<close>

lemma scenario_months_negative_current:
  "sc_projectedMonths (scs_conservative (calculateInvestmentScenarios (- 10) 1 11.1 0.16)) = 1"
  "2 \<le> sc_projectedMonths (scs_expected (calculateInvestmentScenarios (- 10) 1 11.1 0.16))"
proof -
  have "period_loop 1 (0.01 / 12) 11.1 0 (- 10) = 0 + 1"
    by (rule period_loop_first_reach) simp_all
  then show "sc_projectedMonths (scs_conservative (calculateInvestmentScenarios (- 10) 1 11.1 0.16)) = 1"
    unfolding scenario_fields by (simp add: calculateInvestmentPeriod_def one_enat_def)
  have "period_loop 1 (0.16 / 12) 11.1 0 (- 10)
          = period_loop 1 (0.16 / 12) 11.1 (Suc (Suc 0))
              (((- 10) * (1 + 0.16 / 12) + 11.1) * (1 + 0.16 / 12) + 11.1)"
    by (subst period_loop.simps, simp, subst period_loop.simps, simp)
  moreover have "Suc (Suc 0) \<le> period_loop 1 (0.16 / 12) 11.1 (Suc (Suc 0))
              (((- 10) * (1 + 0.16 / 12) + 11.1) * (1 + 0.16 / 12) + 11.1)"
    by (rule period_loop_ge)
  ultimately have "2 \<le> period_loop 1 (0.16 / 12) 11.1 0 (- 10)" by simp
  then show "2 \<le> sc_projectedMonths (scs_expected (calculateInvestmentScenarios (- 10) 1 11.1 0.16))"
    unfolding scenario_fields by (simp add: calculateInvestmentPeriod_def numeral_eq_enat)
qed

text \<open>
  C2 (amended): for every \<open>expectedReturn \<ge> 0.01\<close> (the conservative floor) and every
  \<open>currentAmount \<ge> 0\<close>, and for every target and monthly investment, the bands of
  \<open>calculateInvestmentScenarios\<close> satisfy
  \<open>conservativeReturn \<le> expectedReturn \<le> optimisticReturn\<close> and
  \<open>conservative.projectedMonths \<ge> expected.projectedMonths \<ge> optimistic.projectedMonths\<close>.
\<close>

theorem scenario_bands_ordered:
  assumes "0.01 \<le> expectedReturn" and "0 \<le> currentAmount"
  shows "let s = calculateInvestmentScenarios currentAmount targetAmount monthlyInvestment
                   expectedReturn
         in sc_annualReturn (scs_expected s) = expectedReturn
          \<and> sc_annualReturn (scs_conservative s) \<le> sc_annualReturn (scs_expected s)
          \<and> sc_annualReturn (scs_expected s) \<le> sc_annualReturn (scs_optimistic s)
          \<and> sc_projectedMonths (scs_conservative s) \<ge> sc_projectedMonths (scs_expected s)
          \<and> sc_projectedMonths (scs_expected s) \<ge> sc_projectedMonths (scs_optimistic s)"
proof -
  have a: "max 0.01 (expectedReturn - 0.15) \<le> expectedReturn"
    and b: "expectedReturn \<le> expectedReturn + 0.15"
    and c: "(0::real) < max 0.01 (expectedReturn - 0.15)"
    and d: "0 < expectedReturn"
    using assms(1) by simp_all
  show ?thesis
    unfolding Let_def scenario_fields
    using a b period_antitone [OF c a assms(2)] period_antitone [OF d b assms(2)]
    by simp
qed

theorem scenario_bands_ordered_witness:
  "sc_annualReturn (scs_conservative (calculateInvestmentScenarios 500000 5000000 50000 0.05))
     \<le> sc_annualReturn (scs_expected (calculateInvestmentScenarios 500000 5000000 50000 0.05))
   \<and> sc_projectedMonths (scs_optimistic (calculateInvestmentScenarios 500000 5000000 50000 0.05))
     \<le> sc_projectedMonths (scs_expected (calculateInvestmentScenarios 500000 5000000 50000 0.05))
   \<and> sc_projectedMonths (scs_expected (calculateInvestmentScenarios 500000 5000000 50000 0.05))
     \<le> sc_projectedMonths (scs_conservative (calculateInvestmentScenarios 500000 5000000 50000 0.05))"
  using scenario_bands_ordered [of "0.05" 500000 5000000 50000]
  by (simp add: Let_def)

section \<open>Properties of calculations.ts\<close>

subsection \<open>The amortisation schedule\<close>


lemma toFixed2_0 [simp]: "toFixed2 0 = 0"
  by (simp add: toFixed2_def)











end
